theory Spec2Isabelle
  imports Complex_Main "HOL-Library.AList"
begin

section \<open>Values and dictionaries\<close>

text \<open>
  A cell of the task worksheet, as \<^verbatim>\<open>get_all_records\<close> hands it over, is a string or a
  number; the integration itself adds \<^verbatim>\<open>None\<close> and the booleans. Numbers (Python's int
  and finite float, which compare by value) are kept as rationals. Booleans occur only as
  the \<^verbatim>\<open>visible\<close> flag and are never compared with numbers.
\<close>

datatype pyval = VNone | VBool bool | VNum rat | VStr string

text \<open>Python's truth value of an object, as \<^verbatim>\<open>if x\<close>, \<^verbatim>\<open>not x\<close> and \<^verbatim>\<open>x or y\<close> test it.\<close>

fun truthy :: "pyval \<Rightarrow> bool" where
  "truthy VNone = False"
| "truthy (VBool b) = b"
| "truthy (VNum n) = (n \<noteq> 0)"
| "truthy (VStr s) = (s \<noteq> [])"

text \<open>
  A Python dict is an association list with distinct keys in insertion order:
  \<^verbatim>\<open>d[k] = v\<close> is \<^const>\<open>AList.update\<close> (overwrite in place, or append), \<^verbatim>\<open>d.get(k, x)\<close> is
  \<open>dict_get\<close>, \<^verbatim>\<open>k in d\<close> is membership in the keys.
\<close>

type_synonym task = "(string \<times> pyval) list"

definition dict_get :: "('k \<times> 'v) list \<Rightarrow> 'k \<Rightarrow> 'v \<Rightarrow> 'v" where
  "dict_get d k dflt = (case map_of d k of None \<Rightarrow> dflt | Some v \<Rightarrow> v)"

definition dict_has :: "('k \<times> 'v) list \<Rightarrow> 'k \<Rightarrow> bool" where
  "dict_has d k = (k \<in> set (map fst d))"

text \<open>A dict comprehension \<^verbatim>\<open>{k: v for ...}\<close>: the pairs are stored one after the other.\<close>

definition dict_of :: "('k \<times> 'v) list \<Rightarrow> ('k \<times> 'v) list" where
  "dict_of kvs = fold (\<lambda>(k, v) d. AList.update k v d) kvs []"

section \<open>Strings\<close>

text \<open>
  A string is the list of its code points, each below 256. \<^verbatim>\<open>str.lower\<close> maps the capital
  letters of that range (A to Z, and U+00C0 to U+00DE but for the multiplication sign) to
  the code point 32 above; \<^verbatim>\<open>str.strip\<close> removes the white space of that range from both
  ends: U+0009 to U+000D, U+001C to U+0020, U+0085 and U+00A0.
\<close>

definition lower_char :: "char \<Rightarrow> char" where
  "lower_char c =
     (let n = (of_char c :: nat) in
      if (65 \<le> n \<and> n \<le> 90) \<or> (192 \<le> n \<and> n \<le> 222 \<and> n \<noteq> 215) then char_of (n + 32) else c)"

definition lower :: "string \<Rightarrow> string" where
  "lower s = map lower_char s"

definition isspace :: "char \<Rightarrow> bool" where
  "isspace c = (c \<in> set [CHR '' '', CHR 0x09, CHR 0x0A, CHR 0x0B, CHR 0x0C, CHR 0x0D,
                         CHR 0x1C, CHR 0x1D, CHR 0x1E, CHR 0x1F, CHR 0x85, CHR 0xA0])"

definition strip :: "string \<Rightarrow> string" where
  "strip s = rev (dropWhile isspace (rev (dropWhile isspace s)))"

section \<open>The recurrence evaluator (coordinator.py)\<close>

text \<open>
  Aware datetimes are compared as instants, so an instant is an integer (microseconds).
  The two library calls of \<^verbatim>\<open>cron_run_required\<close> are parameters; each returns \<open>None\<close>
  where the Python call raises:
  \<^item> \<open>fromisoformat v\<close> is \<^verbatim>\<open>datetime.fromisoformat(v).astimezone(now.tzinfo)\<close>;
  \<^item> \<open>get_next c t\<close> is \<^verbatim>\<open>croniter(c, t).get_next(datetime)\<close>;
  \<^item> \<open>year_one\<close> is \<^verbatim>\<open>datetime(1, 1, 1, tzinfo=now.tzinfo)\<close>.
\<close>

record cronlib =
  fromisoformat :: "pyval \<Rightarrow> int option"
  get_next :: "pyval \<Rightarrow> int \<Rightarrow> int option"
  year_one :: int

definition cron_run_required :: "cronlib \<Rightarrow> pyval \<Rightarrow> pyval \<Rightarrow> int \<Rightarrow> bool" where
  "cron_run_required lib cron_expression last_completed_str now =
     (if \<not> truthy cron_expression then last_completed_str = VNone
      else
        (case (if truthy last_completed_str then fromisoformat lib last_completed_str
               else Some (year_one lib)) of
           None \<Rightarrow> False
         | Some start_time \<Rightarrow>
             (case get_next lib cron_expression start_time of
                None \<Rightarrow> False
              | Some next_run \<Rightarrow> next_run \<le> now)))"

section \<open>Fetching the task rows (google_sheet_clients.py)\<close>

datatype error =
    ApiError
  | NoTasksFound
  | MissingColumns "string list"
  | HeaderNotFound
  | TypeError
  | UpdateFailed error

definition strip_value :: "pyval \<Rightarrow> pyval" where
  "strip_value v = (case v of VStr s \<Rightarrow> VStr (strip s) | _ \<Rightarrow> v)"

definition task_lower :: "task \<Rightarrow> task" where
  "task_lower row = dict_of (map (\<lambda>(k, v). (lower k, strip_value v)) row)"

definition or_None :: "pyval \<Rightarrow> pyval" where
  "or_None v = (if truthy v then v else VNone)"

definition known_fields :: "task \<Rightarrow> task" where
  "known_fields lowered =
     [(''task'', dict_get lowered ''task'' (VStr '''')),
      (''assigned_to'', dict_get lowered ''assigned_to'' (VStr ''unknown'')),
      (''cron_frequency'', or_None (dict_get lowered ''cron_frequency'' VNone)),
      (''last_completed'', dict_get lowered ''last_completed'' (VStr '''')),
      (''visible'', dict_get lowered ''visible'' (VBool True))]"

definition add_remaining :: "task \<Rightarrow> task \<Rightarrow> task" where
  "add_remaining lowered cleaned =
     fold (\<lambda>(k, v) c. if \<not> dict_has c k then AList.update k v c else c) lowered cleaned"

definition cleaned_task :: "task \<Rightarrow> task" where
  "cleaned_task row = (let lowered = task_lower row in add_remaining lowered (known_fields lowered))"

definition required_fields :: "string list" where
  "required_fields = [''task'', ''cron_frequency'', ''last_completed'']"

definition get_tasks :: "task list \<Rightarrow> error + task list" where
  "get_tasks tasks =
     (let normalized = map cleaned_task tasks in
      case normalized of
        [] \<Rightarrow> Inl NoTasksFound
      | first # _ \<Rightarrow>
          (let missing_fields = filter (\<lambda>f. \<not> dict_has first f) required_fields in
           if missing_fields \<noteq> [] then Inl (MissingColumns missing_fields)
           else Inr normalized))"

section \<open>Reconciliation of fetched rows with the held list (coordinator.py)\<close>

text \<open>
  \<^verbatim>\<open>{task.get("task"): task for task in self.data}\<close>: the held records by name; of several
  records with one name the last is kept.
\<close>

definition previous_data_by_name :: "task list \<Rightarrow> (pyval \<times> task) list" where
  "previous_data_by_name held = dict_of (map (\<lambda>t. (dict_get t ''task'' VNone, t)) held)"

text \<open>
  The body of the loop over \<^verbatim>\<open>raw_tasks\<close>, in its two halves: \<open>merge_task\<close> sets
  \<^verbatim>\<open>state\<close> and \<^verbatim>\<open>visible\<close> on the fresh record from the held record of the same name,
  \<open>reactivate\<close> is the \<^verbatim>\<open>if\<close> that follows. \<open>now\<close> is the reading of
  \<^verbatim>\<open>datetime.now(CENTRAL)\<close> taken for this record.
\<close>

definition merge_task :: "(pyval \<times> task) list \<Rightarrow> task \<Rightarrow> task" where
  "merge_task previous task =
     (let task_name = dict_get task ''task'' (VStr ''Unnamed'');
          previous_task = dict_get previous task_name [];
          task1 = AList.update ''state''
                    (dict_get previous_task ''state'' (VStr ''not_completed'')) task
      in AList.update ''visible'' (dict_get previous_task ''visible'' (VBool True)) task1)"

definition reactivation_due :: "cronlib \<Rightarrow> int \<Rightarrow> task \<Rightarrow> bool" where
  "reactivation_due lib now task =
     (let last_completed = dict_get task ''last_completed'' (VStr '''');
          cron = dict_get task ''cron_frequency'' VNone
      in dict_get task ''state'' VNone = VStr ''completed''
         \<and> cron \<noteq> VNone
         \<and> cron_run_required lib cron last_completed now)"

definition reactivate :: "cronlib \<Rightarrow> int \<Rightarrow> task \<Rightarrow> task" where
  "reactivate lib now task =
     (if reactivation_due lib now task
      then AList.update ''state'' (VStr ''not_completed'')
             (AList.update ''visible'' (VBool True) task)
      else task)"

definition update_task :: "cronlib \<Rightarrow> (pyval \<times> task) list \<Rightarrow> int \<Rightarrow> task \<Rightarrow> task" where
  "update_task lib previous now task = reactivate lib now (merge_task previous task)"

text \<open>The loop; \<open>clock i\<close> is the clock reading for the record at position \<open>i\<close>.\<close>

fun update_loop ::
  "cronlib \<Rightarrow> (pyval \<times> task) list \<Rightarrow> (nat \<Rightarrow> int) \<Rightarrow> nat \<Rightarrow> task list \<Rightarrow> task list" where
  "update_loop lib previous clock i [] = []"
| "update_loop lib previous clock i (task # rest) =
     update_task lib previous (clock i) task # update_loop lib previous clock (Suc i) rest"

section \<open>The coordinator and its entities\<close>

text \<open>
  Records are Python objects shared between the held list, its copies and the entities, so
  they live in a store: \<open>heap\<close> holds every record object allocated so far, an address is a
  position in it, and a task list is a list of addresses. \<open>trace\<close> is the order of the
  outward effects: a list handed to the subscribers (with the records as they are at that
  moment), writes attempted on the worksheets, events fired on the bus, log lines.
\<close>

datatype effect =
    Published "task list"
  | CellWrite nat nat string
  | RowAppend "pyval list"
  | Fired task
  | Warned
  | Errored

record entity =
  task_id :: string
  entity_id :: string
  unique_id :: string
  category :: string
  pending_state :: bool
  extra_state_attributes :: task

record coordinator =
  heap :: "task list"
  data :: "nat list option"
  last_update_success :: bool
  entities :: "entity list"
  trace :: "effect list"

definition deref :: "coordinator \<Rightarrow> nat list \<Rightarrow> task list" where
  "deref st refs = map (\<lambda>a. heap st ! a) refs"

text \<open>Every address of the held list is an allocated record.\<close>

definition wf :: "coordinator \<Rightarrow> bool" where
  "wf st = (case data st of None \<Rightarrow> True | Some refs \<Rightarrow> list_all (\<lambda>a. a < length (heap st)) refs)"

text \<open>
  \<^verbatim>\<open>for task in ...: if task.get("task") == name: found = task; break\<close>: the address of the
  first record with that name.
\<close>

definition find_task :: "coordinator \<Rightarrow> nat list \<Rightarrow> pyval \<Rightarrow> nat option" where
  "find_task st refs name = find (\<lambda>a. dict_get (heap st ! a) ''task'' VNone = name) refs"

subsection \<open>button.py\<close>

text \<open>
  An entity exists only once a first refresh has set \<^verbatim>\<open>coordinator.data\<close>; reading the
  state of an entity while \<^verbatim>\<open>data\<close> is \<^verbatim>\<open>None\<close> would raise, which \<open>async_press\<close> below
  writes out.
\<close>

definition get_task_data :: "coordinator \<Rightarrow> entity \<Rightarrow> task" where
  "get_task_data st e =
     (case data st of
        None \<Rightarrow> []
      | Some refs \<Rightarrow>
          (case find_task st refs (VStr (task_id e)) of
             None \<Rightarrow> []
           | Some a \<Rightarrow> heap st ! a))"

definition state :: "coordinator \<Rightarrow> entity \<Rightarrow> pyval" where
  "state st e =
     (if pending_state e then VStr ''pending''
      else dict_get (get_task_data st e) ''state'' (VStr ''not_completed''))"

definition update_internal_state :: "coordinator \<Rightarrow> entity \<Rightarrow> entity" where
  "update_internal_state st e =
     e\<lparr>extra_state_attributes :=
         AList.update ''category'' (VStr (category e)) (get_task_data st e)\<rparr>"

definition handle_coordinator_update :: "coordinator \<Rightarrow> entity \<Rightarrow> entity" where
  "handle_coordinator_update st e = update_internal_state st (e\<lparr>pending_state := False\<rparr>)"

text \<open>
  \<^verbatim>\<open>str.upper\<close> on the same range: a to z, and U+00E0 to U+00FE but for the division sign,
  go to the code point 32 below. The upper-case forms of U+00B5, U+00DF and U+00FF lie
  outside the range; a task name with one of them is not covered by \<open>action_id\<close>.
\<close>

definition upper_char :: "char \<Rightarrow> char" where
  "upper_char c =
     (let n = (of_char c :: nat) in
      if (97 \<le> n \<and> n \<le> 122) \<or> (224 \<le> n \<and> n \<le> 254 \<and> n \<noteq> 247) then char_of (n - 32) else c)"

definition action_id :: "string \<Rightarrow> string" where
  "action_id name =
     ''CONFIRM_'' @ map upper_char (map (\<lambda>c. if c = CHR '' '' then CHR ''_'' else c) name)"

definition event_data :: "entity \<Rightarrow> task" where
  "event_data e =
     [(''entity_id'', VStr (entity_id e)),
      (''task_name'', VStr (task_id e)),
      (''action_id'', VStr (action_id (task_id e))),
      (''assigned_to'', dict_get (extra_state_attributes e) ''assigned_to'' VNone),
      (''category'', VStr (category e)),
      (''unique_id'', VStr (unique_id e))]"

definition set_pending :: "task \<Rightarrow> task" where
  "set_pending task =
     AList.update ''visible'' (VBool True) (AList.update ''state'' (VStr ''pending'') task)"

text \<open>\<open>async_press st i\<close>: the button of the entity at position \<open>i\<close> is pressed.\<close>

definition async_press :: "coordinator \<Rightarrow> nat \<Rightarrow> coordinator" where
  "async_press st i =
     (let e = entities st ! i in
      if pending_state e then st\<lparr>trace := trace st @ [Warned]\<rparr>
      else
        (case data st of
           None \<Rightarrow> st\<lparr>trace := trace st @ [Errored]\<rparr>
         | Some refs \<Rightarrow>
             if state st e = VStr ''completed'' then st\<lparr>trace := trace st @ [Warned]\<rparr>
             else
               (let st1 = st\<lparr>entities := (entities st)[i := e\<lparr>pending_state := True\<rparr>]\<rparr>;
                    st2 = (case find_task st1 refs (VStr (task_id e)) of
                             None \<Rightarrow> st1
                           | Some a \<Rightarrow>
                               st1\<lparr>heap := (heap st1)[a := set_pending (heap st1 ! a)]\<rparr>)
                in st2\<lparr>trace := trace st2 @ [Fired (event_data e)]\<rparr>)))"

subsection \<open>The coordinator of the host platform\<close>

text \<open>
  \<^verbatim>\<open>async_set_updated_data\<close> and \<^verbatim>\<open>async_refresh\<close> belong to the platform's
  \<^verbatim>\<open>DataUpdateCoordinator\<close>: the first stores the list, marks the update a success and calls
  every listener; the second runs \<^verbatim>\<open>_async_update_data\<close>, stores what it returns, and on
  \<^verbatim>\<open>UpdateFailed\<close> keeps \<^verbatim>\<open>data\<close> and, if the update before had succeeded, logs the error,
  clears \<^verbatim>\<open>last_update_success\<close> and calls the listeners. The warning that comes first in
  the trace of a failed tick is the one \<^verbatim>\<open>_async_update_data\<close> logs before it raises.
\<close>

definition async_update_listeners :: "coordinator \<Rightarrow> coordinator" where
  "async_update_listeners st = st\<lparr>entities := map (handle_coordinator_update st) (entities st)\<rparr>"

definition async_set_updated_data :: "coordinator \<Rightarrow> nat list \<Rightarrow> coordinator" where
  "async_set_updated_data st refs =
     (let st1 = st\<lparr>data := Some refs, last_update_success := True,
                    trace := trace st @ [Published (deref st refs)]\<rparr>
      in async_update_listeners st1)"

subsection \<open>One reconciliation tick\<close>

text \<open>
  What the store answers during a tick: \<open>load_sheet\<close> is the exception of opening the sheet
  and its worksheets, if any; \<open>get_all_records\<close> the rows of the task worksheet, or the
  exception of reading them.
\<close>

record fetch =
  load_sheet :: "error option"
  get_all_records :: "error + task list"

definition held_by_name :: "coordinator \<Rightarrow> (pyval \<times> task) list" where
  "held_by_name st =
     (case data st of None \<Rightarrow> [] | Some refs \<Rightarrow> previous_data_by_name (deref st refs))"

definition async_update_data ::
  "cronlib \<Rightarrow> coordinator \<Rightarrow> fetch \<Rightarrow> (nat \<Rightarrow> int) \<Rightarrow> error + task list" where
  "async_update_data lib st f clock =
     (let previous = held_by_name st in
      case load_sheet f of
        Some err \<Rightarrow> Inl (UpdateFailed err)
      | None \<Rightarrow>
          (case get_all_records f of
             Inl err \<Rightarrow> Inl (UpdateFailed err)
           | Inr rows \<Rightarrow>
               (case get_tasks rows of
                  Inl err \<Rightarrow> Inl (UpdateFailed err)
                | Inr raw_tasks \<Rightarrow> Inr (update_loop lib previous clock 0 raw_tasks))))"

definition async_refresh ::
  "cronlib \<Rightarrow> coordinator \<Rightarrow> fetch \<Rightarrow> (nat \<Rightarrow> int) \<Rightarrow> coordinator" where
  "async_refresh lib st f clock =
     (case async_update_data lib st f clock of
        Inl err \<Rightarrow>
          (if last_update_success st
           then async_update_listeners
                  (st\<lparr>last_update_success := False, trace := trace st @ [Warned, Errored]\<rparr>)
           else st\<lparr>trace := trace st @ [Warned]\<rparr>)
      | Inr updated_tasks \<Rightarrow>
          (let refs = [length (heap st) ..< length (heap st) + length updated_tasks];
               st1 = st\<lparr>heap := heap st @ updated_tasks, data := Some refs,
                         last_update_success := True,
                         trace := trace st @ [Published updated_tasks]\<rparr>
           in async_update_listeners st1))"

subsection \<open>Writing to the worksheets (google_sheet_clients.py)\<close>

text \<open>
  The calls on the two worksheets, each with the exception it may raise. A write that is
  attempted is recorded whether or not it succeeds.
\<close>

record worksheets =
  ws_find :: "pyval \<Rightarrow> error + nat option"
  row_values :: "error + string list"
  update_cell :: "nat \<Rightarrow> nat \<Rightarrow> string \<Rightarrow> error option"
  append_row :: "pyval list \<Rightarrow> error option"

definition index_of :: "'a list \<Rightarrow> 'a \<Rightarrow> nat option" where
  "index_of xs x = (if x \<in> set xs then Some (length (takeWhile (\<lambda>y. y \<noteq> x) xs)) else None)"

definition update_task_status ::
  "worksheets \<Rightarrow> pyval \<Rightarrow> string \<Rightarrow> effect list \<times> error option" where
  "update_task_status ws task_name last_completed_str =
     (case ws_find ws task_name of
        Inl err \<Rightarrow> ([], Some err)
      | Inr None \<Rightarrow> ([Warned], None)
      | Inr (Some row_index) \<Rightarrow>
          (case row_values ws of
             Inl err \<Rightarrow> ([], Some err)
           | Inr header \<Rightarrow>
               (let header_lower = map (\<lambda>h. lower (strip h)) header in
                case index_of header_lower ''last_completed'' of
                  None \<Rightarrow> ([Errored], Some HeaderNotFound)
                | Some i \<Rightarrow>
                    (let last_completed_col_index = i + 1;
                         w = CellWrite row_index last_completed_col_index last_completed_str
                     in case update_cell ws row_index last_completed_col_index
                               last_completed_str of
                          Some err \<Rightarrow> ([w, Errored], Some err)
                        | None \<Rightarrow> ([w], None)))))"

definition log_action ::
  "worksheets \<Rightarrow> string \<Rightarrow> pyval \<Rightarrow> string \<Rightarrow> string \<Rightarrow> effect list \<times> error option" where
  "log_action ws timestamp task_name action user =
     (let row = [VStr timestamp, task_name, VStr user, VStr action] in
      case append_row ws row of
        Some err \<Rightarrow> ([RowAppend row, Errored], Some err)
      | None \<Rightarrow> ([RowAppend row], None))"

subsection \<open>Completing and reopening a task (coordinator.py)\<close>

definition complete_record :: "string \<Rightarrow> task \<Rightarrow> task" where
  "complete_record now found_task =
     AList.update ''last_completed'' (VStr now)
       (AList.update ''visible'' (VBool False)
          (AList.update ''state'' (VStr ''completed'') found_task))"

text \<open>
  The part of \<open>async_complete_task\<close> under \<^verbatim>\<open># Google Sheet updates\<close>: the status is
  written, then the action is logged; an exception of either ends the function in its
  handler, which logs the error.
\<close>

definition sheet_updates ::
  "worksheets \<Rightarrow> pyval \<Rightarrow> string \<Rightarrow> string \<Rightarrow> string \<Rightarrow> effect list" where
  "sheet_updates ws task_name user_id now log_time =
     (case update_task_status ws task_name now of
        (eff1, Some err) \<Rightarrow> eff1 @ [Errored]
      | (eff1, None) \<Rightarrow>
          (case log_action ws log_time task_name ''completed'' user_id of
             (eff2, Some err) \<Rightarrow> eff1 @ eff2 @ [Errored]
           | (eff2, None) \<Rightarrow> eff1 @ eff2))"

text \<open>
  \<open>now\<close> is \<^verbatim>\<open>datetime.now(CENTRAL).isoformat(timespec="seconds")\<close>, \<open>log_time\<close> the
  timestamp \<open>log_action\<close> takes. \<^verbatim>\<open>list(self.data)\<close> copies the list, not the records: the
  copy holds the same addresses. An empty record counts as not found (\<^verbatim>\<open>if not found_task\<close>).
\<close>

definition async_complete_task ::
  "coordinator \<Rightarrow> worksheets \<Rightarrow> pyval \<Rightarrow> string \<Rightarrow> string \<Rightarrow> string \<Rightarrow> coordinator" where
  "async_complete_task st ws task_name user_id now log_time =
     (case data st of
        None \<Rightarrow> st\<lparr>trace := trace st @ [Errored]\<rparr>
      | Some updated_tasks \<Rightarrow>
          (case find_task st updated_tasks task_name of
             None \<Rightarrow> st\<lparr>trace := trace st @ [Warned]\<rparr>
           | Some a \<Rightarrow>
               if heap st ! a = [] then st\<lparr>trace := trace st @ [Warned]\<rparr>
               else
                 (let st1 = st\<lparr>heap := (heap st)[a := complete_record now (heap st ! a)]\<rparr>;
                      st2 = async_set_updated_data st1 updated_tasks
                  in st2\<lparr>trace := trace st2 @ sheet_updates ws task_name user_id now log_time\<rparr>)))"

definition reopen_record :: "task \<Rightarrow> task" where
  "reopen_record found_task =
     AList.update ''visible'' (VBool True)
       (AList.update ''state'' (VStr ''not_completed'') found_task)"

definition async_incomplete_pending_task :: "coordinator \<Rightarrow> pyval \<Rightarrow> coordinator" where
  "async_incomplete_pending_task st task_name =
     (case data st of
        None \<Rightarrow> st\<lparr>trace := trace st @ [Errored]\<rparr>
      | Some updated_tasks \<Rightarrow>
          (case find_task st updated_tasks task_name of
             None \<Rightarrow> st\<lparr>trace := trace st @ [Warned]\<rparr>
           | Some a \<Rightarrow>
               if heap st ! a = [] then st\<lparr>trace := trace st @ [Warned]\<rparr>
               else
                 (let st1 = st\<lparr>heap := (heap st)[a := reopen_record (heap st ! a)]\<rparr>
                  in async_set_updated_data st1 updated_tasks)))"

section \<open>The five-minute schedule (coordinator.py)\<close>

text \<open>
  A UTC datetime: the day as its ordinal number, and the time of day. \<open>add_minutes\<close> is
  \<^verbatim>\<open>now + timedelta(minutes=m)\<close>, which carries into the day; \<open>instant\<close> counts the
  microseconds, so that it orders datetimes as \<^verbatim>\<open><\<close> does.
\<close>

record datetime =
  ordinal :: int
  hour :: int
  minute :: int
  second :: int
  microsecond :: int

definition valid :: "datetime \<Rightarrow> bool" where
  "valid d = (0 \<le> hour d \<and> hour d < 24 \<and> 0 \<le> minute d \<and> minute d < 60
              \<and> 0 \<le> second d \<and> second d < 60 \<and> 0 \<le> microsecond d \<and> microsecond d < 1000000)"

definition instant :: "datetime \<Rightarrow> int" where
  "instant d = (((ordinal d * 24 + hour d) * 60 + minute d) * 60 + second d) * 1000000
               + microsecond d"

definition add_minutes :: "datetime \<Rightarrow> int \<Rightarrow> datetime" where
  "add_minutes d m =
     (let secs = hour d * 3600 + minute d * 60 + second d + m * 60;
          s = secs mod 86400
      in \<lparr>ordinal = ordinal d + secs div 86400, hour = s div 3600,
          minute = (s mod 3600) div 60, second = s mod 60, microsecond = microsecond d\<rparr>)"

definition schedule_five_minutely_refresh :: "datetime \<Rightarrow> datetime" where
  "schedule_five_minutely_refresh now =
     (let next_run = (add_minutes now 5)\<lparr>second := 0, microsecond := 0\<rparr>;
          minute' = minute next_run - (minute next_run mod 5)
      in next_run\<lparr>minute := minute'\<rparr>)"

section \<open>Notions of the specification\<close>

text \<open>
  The held record "of the same name": the last record of the held list with that name.
\<close>

definition previous_record :: "task list \<Rightarrow> pyval \<Rightarrow> task option" where
  "previous_record held name = find (\<lambda>p. dict_get p ''task'' VNone = name) (rev held)"

text \<open>The held list as a list of records: what \<^verbatim>\<open>self.data\<close> reads as when the tick starts.\<close>

definition held_list :: "coordinator \<Rightarrow> task list" where
  "held_list st = (case data st of None \<Rightarrow> [] | Some refs \<Rightarrow> deref st refs)"

text \<open>
  The cell of a sheet row under a column, the header compared in lower case (of several
  such columns the last); the cell is blank when the column is missing or its text is
  empty once stripped.
\<close>

definition sheet_cell :: "task \<Rightarrow> string \<Rightarrow> pyval option" where
  "sheet_cell row column = map_option snd (find (\<lambda>(k, v). lower k = column) (rev row))"

definition blank_cell :: "task \<Rightarrow> string \<Rightarrow> bool" where
  "blank_cell row column =
     (case sheet_cell row column of None \<Rightarrow> True | Some (VStr s) \<Rightarrow> strip s = [] | Some _ \<Rightarrow> False)"

text \<open>A stand-in for the cron library, for evaluating the model on sample inputs.\<close>

definition sample_lib :: cronlib where
  "sample_lib = \<lparr>fromisoformat = (\<lambda>v. Some 0), get_next = (\<lambda>c t. Some (t + 60)), year_one = - 1000\<rparr>"

text \<open>
  A sheet of three tasks, the answer of a store that holds it, and a coordinator holding
  two completed tasks.
\<close>

definition sample_sheet :: "task list" where
  "sample_sheet =
     [[(''Task'', VStr ''A''), (''Cron_Frequency'', VStr ''''),
       (''Last_Completed'', VStr ''2024-01-01T00:00:00'')],
      [(''Task'', VStr ''B''), (''Cron_Frequency'', VStr ''0 8 * * *''),
       (''Last_Completed'', VStr ''2024-01-01T00:00:00'')],
      [(''Task'', VStr ''C''), (''Cron_Frequency'', VStr ''''), (''Last_Completed'', VStr '''')]]"

definition sample_fetch :: fetch where
  "sample_fetch = \<lparr>load_sheet = None, get_all_records = Inr sample_sheet\<rparr>"

definition completed_coordinator :: coordinator where
  "completed_coordinator =
     \<lparr>heap = [[(''task'', VStr ''A''), (''state'', VStr ''completed''), (''visible'', VBool False)],
              [(''task'', VStr ''B''), (''state'', VStr ''completed''), (''visible'', VBool False)]],
      data = Some [0, 1], last_update_success = True, entities = [], trace = []\<rparr>"

text \<open>The minutes of a datetime since the start of day 0.\<close>

definition minutes :: "datetime \<Rightarrow> int" where
  "minutes d = (ordinal d * 24 + hour d) * 60 + minute d"

text \<open>A coordinator holding two tasks, with the entity of the first, and worksheets whose cell update fails.\<close>

definition sample_entity :: entity where
  "sample_entity =
     \<lparr>task_id = ''A'', entity_id = ''button.a'', unique_id = ''e1_a'', category = ''PT Tasks'',
      pending_state = False,
      extra_state_attributes =
        [(''task'', VStr ''A''), (''assigned_to'', VStr ''kid''), (''state'', VStr ''not_completed''),
         (''visible'', VBool True), (''category'', VStr ''PT Tasks'')]\<rparr>"

definition sample_coordinator :: coordinator where
  "sample_coordinator =
     \<lparr>heap = [[(''task'', VStr ''A''), (''assigned_to'', VStr ''kid''),
               (''state'', VStr ''not_completed''), (''visible'', VBool True)],
              [(''task'', VStr ''B''), (''assigned_to'', VStr ''kid''),
               (''state'', VStr ''completed''), (''visible'', VBool False)]],
      data = Some [0, 1], last_update_success = True, entities = [sample_entity], trace = []\<rparr>"

definition failing_worksheets :: worksheets where
  "failing_worksheets =
     \<lparr>ws_find = (\<lambda>n. Inr (Some 2)), row_values = Inr [''Task'', '' Last_Completed ''],
      update_cell = (\<lambda>r c v. Some ApiError), append_row = (\<lambda>r. None)\<rparr>"

section \<open>Dictionaries: lookups after updates\<close>

lemma map_of_fold_update:
  "map_of (fold (\<lambda>(k, v) d. AList.update k v d) kvs acc) = map_of (rev kvs @ acc)"
proof (induction kvs arbitrary: acc)
  case Nil
  show ?case by simp
next
  case (Cons p kvs)
  obtain k v where p: "p = (k, v)" by (cases p)
  show ?case
    by (simp add: p Cons.IH map_of_append update_conv' fun_eq_iff map_add_def split: option.splits)
qed

lemma map_of_dict_of: "map_of (dict_of kvs) = map_of (rev kvs)"
  by (simp add: dict_of_def map_of_fold_update)

lemma map_of_find: "map_of xs k = map_option snd (find (\<lambda>p. fst p = k) xs)"
  by (induction xs) auto

lemma find_map: "find P (map f xs) = map_option f (find (P \<circ> f) xs)"
  by (induction xs) auto

lemma map_of_previous_data_by_name:
  "map_of (previous_data_by_name held) name = previous_record held name"
  by (simp add: previous_data_by_name_def previous_record_def map_of_dict_of map_of_find
      rev_map find_map o_def option.map_comp option.map_ident)

lemma add_remaining_keep:
  "map_of cleaned k = Some v \<Longrightarrow> map_of (add_remaining lowered cleaned) k = Some v"
  unfolding add_remaining_def
proof (induction lowered arbitrary: cleaned)
  case Nil
  then show ?case by simp
next
  case (Cons p lowered)
  obtain k' v' where p: "p = (k', v')" by (cases p)
  have "k' \<noteq> k" if "\<not> dict_has cleaned k'"
    using that Cons.prems by (auto simp: dict_has_def dest: map_of_SomeD intro: rev_image_eqI)
  then show ?case using Cons.prems
    by (auto simp: p update_conv' intro!: Cons.IH)
qed

lemma cleaned_task_known:
  "map_of (known_fields (task_lower row)) k = Some v \<Longrightarrow> map_of (cleaned_task row) k = Some v"
  by (simp add: cleaned_task_def Let_def add_remaining_keep)

lemma dict_has_iff: "dict_has d k \<longleftrightarrow> map_of d k \<noteq> None"
  by (simp add: dict_has_def map_of_eq_None_iff)

lemma cleaned_task_has_required: "filter (\<lambda>f. \<not> dict_has (cleaned_task row) f) required_fields = []"
  by (simp add: required_fields_def dict_has_iff cleaned_task_def Let_def known_fields_def
      add_remaining_keep)

lemma length_update_loop: "length (update_loop lib previous clock i raw) = length raw"
  by (induction raw arbitrary: i) simp_all

lemma nth_update_loop:
  "j < length raw \<Longrightarrow>
   update_loop lib previous clock i raw ! j = update_task lib previous (clock (i + j)) (raw ! j)"
proof (induction raw arbitrary: i j)
  case Nil
  then show ?case by simp
next
  case (Cons t raw)
  then show ?case by (cases j) simp_all
qed

lemma map_of_task_lower:
  "map_of (task_lower row) column = map_option strip_value (sheet_cell row column)"
  by (simp add: task_lower_def sheet_cell_def map_of_dict_of map_of_find rev_map find_map
      o_def option.map_comp case_prod_unfold)

lemma merge_task_other:
  "k \<noteq> ''state'' \<Longrightarrow> k \<noteq> ''visible'' \<Longrightarrow> map_of (merge_task previous task) k = map_of task k"
  by (simp add: merge_task_def Let_def update_conv')

lemma merge_task_state:
  "map_of (merge_task previous task) ''state'' =
     Some (dict_get (dict_get previous (dict_get task ''task'' (VStr ''Unnamed'')) [])
             ''state'' (VStr ''not_completed''))"
  by (simp add: merge_task_def Let_def update_conv')

lemma merge_task_visible:
  "map_of (merge_task previous task) ''visible'' =
     Some (dict_get (dict_get previous (dict_get task ''task'' (VStr ''Unnamed'')) [])
             ''visible'' (VBool True))"
  by (simp add: merge_task_def Let_def update_conv')

lemma reactivate_other:
  "k \<noteq> ''state'' \<Longrightarrow> k \<noteq> ''visible'' \<Longrightarrow> map_of (reactivate lib now task) k = map_of task k"
  by (simp add: reactivate_def update_conv')

lemma dict_get_previous:
  "dict_get (previous_data_by_name held) name [] =
     (case previous_record held name of None \<Rightarrow> [] | Some p \<Rightarrow> p)"
  by (simp add: dict_get_def map_of_previous_data_by_name)

lemma dict_get_Nil: "dict_get [] k d = d"
  by (simp add: dict_get_def)

lemma merge_task_carry:
  "case previous_record held (dict_get fresh ''task'' (VStr ''Unnamed'')) of
     None \<Rightarrow> map_of (merge_task (previous_data_by_name held) fresh) ''state''
              = Some (VStr ''not_completed'')
            \<and> map_of (merge_task (previous_data_by_name held) fresh) ''visible''
              = Some (VBool True)
   | Some p \<Rightarrow> map_of (merge_task (previous_data_by_name held) fresh) ''state''
                = Some (dict_get p ''state'' (VStr ''not_completed''))
              \<and> map_of (merge_task (previous_data_by_name held) fresh) ''visible''
                = Some (dict_get p ''visible'' (VBool True))"
  by (simp add: merge_task_state merge_task_visible dict_get_previous dict_get_Nil
      split: option.splits)

lemma get_tasks_Inr: "get_tasks rows = Inr tasks \<Longrightarrow> tasks = map cleaned_task rows"
  by (auto simp: get_tasks_def Let_def split: list.splits if_splits)

lemma cleaned_task_cron:
  "map_of (cleaned_task row) ''cron_frequency''
     = Some (or_None (dict_get (task_lower row) ''cron_frequency'' VNone))"
  by (rule cleaned_task_known) (simp add: known_fields_def)

lemma cleaned_task_keys:
  "dict_has (cleaned_task row) ''task'' \<and> dict_has (cleaned_task row) ''assigned_to''
   \<and> dict_has (cleaned_task row) ''cron_frequency'' \<and> dict_has (cleaned_task row) ''last_completed''
   \<and> dict_has (cleaned_task row) ''visible''"
  by (simp add: dict_has_iff cleaned_task_def Let_def known_fields_def add_remaining_keep)

lemma or_None_not_empty: "or_None v \<noteq> VStr []"
  by (cases v) (simp_all add: or_None_def)

lemma blank_cell_or_None:
  "blank_cell row column \<Longrightarrow> or_None (dict_get (task_lower row) column VNone) = VNone"
  by (auto simp: blank_cell_def dict_get_def map_of_task_lower or_None_def strip_value_def
      split: option.splits pyval.splits)

lemma no_cron_no_reactivation:
  "map_of task ''cron_frequency'' = Some VNone \<Longrightarrow>
   update_task lib previous now task = merge_task previous task"
  by (simp add: update_task_def reactivate_def reactivation_due_def Let_def dict_get_def
      merge_task_other)

section \<open>Datetime arithmetic\<close>

lemma instant_minutes: "instant d = (minutes d * 60 + second d) * 1000000 + microsecond d"
  by (simp add: instant_def minutes_def)

lemma div_mod_60_3600:
  fixes x :: int
  shows "(x div 3600) * 60 + (x mod 3600) div 60 = x div 60"
proof -
  have "x div 3600 = (x div 60) div 60"
    using zdiv_zmult2_eq [of 60 x 60] by simp
  moreover have "(x mod 3600) div 60 = (x div 60) mod 60"
    using zmod_zmult2_eq [of 60 x 60] by simp
  ultimately show ?thesis by simp
qed

lemma div_mod_86400:
  fixes x :: int
  shows "(x div 86400) * 1440 + (x mod 86400) div 60 = x div 60"
proof -
  have "x div 86400 = (x div 60) div 1440"
    using zdiv_zmult2_eq [of 1440 x 60] by simp
  moreover have "(x mod 86400) div 60 = (x div 60) mod 1440"
    using zmod_zmult2_eq [of 1440 x 60] by simp
  ultimately show ?thesis by simp
qed

lemma mod_86400_60: fixes x :: int shows "(x mod 86400) mod 60 = x mod 60"
  by (rule mod_mod_cancel) simp

lemma div_mod_base:
  fixes a r :: int
  assumes "0 \<le> r" "r < 60"
  shows "(a * 60 + r) div 60 = a" and "(a * 60 + r) mod 60 = r"
  using assms by simp_all

lemma add_minutes_5:
  assumes "valid d"
  shows "minutes (add_minutes d 5) = minutes d + 5"
    and "second (add_minutes d 5) = second d"
    and "microsecond (add_minutes d 5) = microsecond d"
    and "0 \<le> minute (add_minutes d 5)" and "minute (add_minutes d 5) < 60"
    and "0 \<le> hour (add_minutes d 5)" and "hour (add_minutes d 5) < 24"
proof -
  define secs where "secs = hour d * 3600 + minute d * 60 + second d + 5 * 60"
  define s where "s = secs mod 86400"
  have v: "0 \<le> hour d" "hour d < 24" "0 \<le> minute d" "minute d < 60" "0 \<le> second d" "second d < 60"
    using assms by (simp_all add: valid_def)
  have secs: "secs = (hour d * 60 + minute d + 5) * 60 + second d"
    by (simp add: secs_def algebra_simps)
  have d60: "secs div 60 = hour d * 60 + minute d + 5"
    unfolding secs using v(5,6) by (rule div_mod_base(1))
  have m60: "secs mod 60 = second d"
    unfolding secs using v(5,6) by (rule div_mod_base(2))
  have s: "0 \<le> s" "s < 86400" by (simp_all add: s_def)
  have A: "add_minutes d 5 = \<lparr>ordinal = ordinal d + secs div 86400, hour = s div 3600,
          minute = (s mod 3600) div 60, second = s mod 60, microsecond = microsecond d\<rparr>"
    by (simp add: add_minutes_def Let_def secs_def s_def)
  have "minutes (add_minutes d 5)
        = ordinal d * 1440 + ((secs div 86400) * 1440 + ((s div 3600) * 60 + (s mod 3600) div 60))"
    by (simp add: A minutes_def algebra_simps)
  also have "\<dots> = ordinal d * 1440 + secs div 60"
    by (simp only: div_mod_60_3600 s_def div_mod_86400)
  finally show "minutes (add_minutes d 5) = minutes d + 5"
    by (simp add: d60 minutes_def algebra_simps)
  show "second (add_minutes d 5) = second d"
    by (simp add: A s_def mod_86400_60 m60)
  show "microsecond (add_minutes d 5) = microsecond d" by (simp add: A)
  show "0 \<le> minute (add_minutes d 5)" by (simp add: A)
  show "minute (add_minutes d 5) < 60"
  proof -
    have "s mod 3600 < 3600" by simp
    then show ?thesis by (simp add: A)
  qed
  show "0 \<le> hour (add_minutes d 5)" using s by (simp add: A)
  show "hour (add_minutes d 5) < 24" using s by (simp add: A)
qed


lemma minutes_mod_5: "minutes d mod 5 = minute d mod 5"
proof -
  have "minutes d = 5 * ((ordinal d * 24 + hour d) * 12) + minute d"
    by (simp add: minutes_def)
  then show ?thesis by (simp only: mod_mult_self4)
qed

lemma schedule_minutes:
  assumes "valid now"
  shows "minutes (schedule_five_minutely_refresh now) = 5 * (minutes now div 5) + 5"
    and "second (schedule_five_minutely_refresh now) = 0"
    and "microsecond (schedule_five_minutely_refresh now) = 0"
    and "minute (schedule_five_minutely_refresh now) mod 5 = 0"
    and "valid (schedule_five_minutely_refresh now)"
proof -
  define d where "d = add_minutes now 5"
  note a = add_minutes_5 [OF assms, folded d_def]
  have n: "schedule_five_minutely_refresh now
           = d\<lparr>second := 0, microsecond := 0, minute := minute d - minute d mod 5\<rparr>"
    by (simp add: schedule_five_minutely_refresh_def Let_def d_def)
  have "minutes (schedule_five_minutely_refresh now) = minutes d - minute d mod 5"
    by (simp add: n minutes_def)
  also have "\<dots> = minutes d - minutes d mod 5"
    by (simp only: minutes_mod_5)
  also have "\<dots> = 5 * (minutes now div 5) + 5"
    unfolding a(1) by presburger
  finally show "minutes (schedule_five_minutely_refresh now) = 5 * (minutes now div 5) + 5" .
  show "second (schedule_five_minutely_refresh now) = 0" by (simp add: n)
  show "microsecond (schedule_five_minutely_refresh now) = 0" by (simp add: n)
  show "minute (schedule_five_minutely_refresh now) mod 5 = 0"
    by (simp add: n)
  have "0 \<le> minute d - minute d mod 5" "minute d - minute d mod 5 < 60"
    using a(4,5) by presburger+
  then show "valid (schedule_five_minutely_refresh now)"
    using a(6,7) by (simp add: n valid_def)
qed


section \<open>The coordinator: what each step leaves alone\<close>

lemma async_update_listeners_frame:
  "heap (async_update_listeners st) = heap st"
  "data (async_update_listeners st) = data st"
  "trace (async_update_listeners st) = trace st"
  "last_update_success (async_update_listeners st) = last_update_success st"
  by (simp_all add: async_update_listeners_def)

lemma get_tasks_Nil: "get_tasks [] = Inl NoTasksFound"
  by (simp add: get_tasks_def)

lemma async_set_updated_data_frame:
  "heap (async_set_updated_data st refs) = heap st"
  "data (async_set_updated_data st refs) = Some refs"
  "trace (async_set_updated_data st refs) = trace st @ [Published (deref st refs)]"
  "last_update_success (async_set_updated_data st refs)"
  by (simp_all add: async_set_updated_data_def Let_def async_update_listeners_frame)

lemma deref_heap: "heap st' = heap st \<Longrightarrow> deref st' refs = deref st refs"
  by (simp add: deref_def)

lemma find_task_Some:
  assumes "find_task st refs name = Some a"
  shows "a \<in> set refs" and "dict_get (heap st ! a) ''task'' VNone = name"
  using assms by (auto simp: find_task_def find_Some_iff)

lemma wf_ref: "wf st \<Longrightarrow> data st = Some refs \<Longrightarrow> a \<in> set refs \<Longrightarrow> a < length (heap st)"
  by (simp add: wf_def list_all_iff)

lemma complete_record_fields:
  "map_of (complete_record now t) ''state'' = Some (VStr ''completed'')"
  "map_of (complete_record now t) ''visible'' = Some (VBool False)"
  "map_of (complete_record now t) ''last_completed'' = Some (VStr now)"
  by (simp_all add: complete_record_def update_conv')

lemma async_complete_task_found:
  assumes "wf st" "data st = Some refs" "find_task st refs task_name = Some a"
    "task_name \<noteq> VNone"
  shows "async_complete_task st ws task_name user_id now log_time
         = (async_set_updated_data
              (st\<lparr>heap := (heap st)[a := complete_record now (heap st ! a)]\<rparr>) refs)
           \<lparr>trace := trace st
               @ [Published (deref (st\<lparr>heap := (heap st)[a := complete_record now (heap st ! a)]\<rparr>) refs)]
               @ sheet_updates ws task_name user_id now log_time\<rparr>"
proof -
  have "dict_get (heap st ! a) ''task'' VNone \<noteq> VNone"
    using find_task_Some(2) [OF assms(3)] assms(4) by simp
  then have ne: "heap st ! a \<noteq> []"
    by (auto simp: dict_get_def)
  show ?thesis
    using assms(2,3) ne
    by (simp add: async_complete_task_def Let_def sheet_updates_def
        async_set_updated_data_frame split: prod.splits option.splits)
qed

lemma async_press_pending:
  "pending_state (entities st ! i) \<Longrightarrow> async_press st i = st\<lparr>trace := trace st @ [Warned]\<rparr>"
  by (simp add: async_press_def Let_def)

lemma async_press_completed:
  "data st = Some refs \<Longrightarrow> state st (entities st ! i) = VStr ''completed'' \<Longrightarrow>
   async_press st i = st\<lparr>trace := trace st @ [Warned]\<rparr>"
  by (simp add: async_press_def Let_def)

lemma async_press_accepted:
  assumes "data st = Some refs" "\<not> pending_state (entities st ! i)"
    "state st (entities st ! i) \<noteq> VStr ''completed''"
  shows "async_press st i =
     (case find_task st refs (VStr (task_id (entities st ! i))) of
        None \<Rightarrow> st\<lparr>entities := (entities st)[i := (entities st ! i)\<lparr>pending_state := True\<rparr>],
                  trace := trace st @ [Fired (event_data (entities st ! i))]\<rparr>
      | Some a \<Rightarrow> st\<lparr>entities := (entities st)[i := (entities st ! i)\<lparr>pending_state := True\<rparr>],
                    heap := (heap st)[a := set_pending (heap st ! a)],
                    trace := trace st @ [Fired (event_data (entities st ! i))]\<rparr>)"
  using assms by (simp add: async_press_def Let_def find_task_def split: option.splits)

lemma async_refresh_heap:
  "heap (async_refresh lib st f clock)
     = (case async_update_data lib st f clock of Inl err \<Rightarrow> heap st | Inr tasks \<Rightarrow> heap st @ tasks)"
  by (simp add: async_refresh_def Let_def async_update_listeners_frame split: sum.splits)

lemma deref_fresh:
  "heap st' = heap st @ tasks \<Longrightarrow>
   deref st' [length (heap st) ..< length (heap st) + length tasks] = tasks"
  unfolding deref_def by (rule nth_equalityI) (simp_all add: nth_append)

lemma held_by_name_held_list: "held_by_name st = previous_data_by_name (held_list st)"
  by (simp add: held_by_name_def held_list_def previous_data_by_name_def dict_of_def
      split: option.splits)

lemma async_update_data_fetched:
  "load_sheet f = None \<Longrightarrow> get_all_records f = Inr rows \<Longrightarrow> get_tasks rows = Inr raw \<Longrightarrow>
   async_update_data lib st f clock
     = Inr (update_loop lib (previous_data_by_name (held_list st)) clock 0 raw)"
  by (simp add: async_update_data_def Let_def held_by_name_held_list)

lemma async_refresh_success:
  assumes "async_update_data lib st f clock = Inr out"
  shows "heap (async_refresh lib st f clock) = heap st @ out"
    and "data (async_refresh lib st f clock)
           = Some [length (heap st) ..< length (heap st) + length out]"
    and "trace (async_refresh lib st f clock) = trace st @ [Published out]"
    and "last_update_success (async_refresh lib st f clock)"
  using assms by (simp_all add: async_refresh_def Let_def async_update_listeners_frame)

lemma failed_fetch_keeps_list:
  "(load_sheet f = Some e \<longrightarrow> async_update_data lib st f clock = Inl (UpdateFailed e))
   \<and> (load_sheet f = None \<and> get_all_records f = Inl e \<longrightarrow>
        async_update_data lib st f clock = Inl (UpdateFailed e))
   \<and> (load_sheet f = None \<and> get_all_records f = Inr [] \<longrightarrow>
        async_update_data lib st f clock = Inl (UpdateFailed NoTasksFound))
   \<and> (async_update_data lib st f clock = Inl err \<longrightarrow>
        (\<exists>cause. err = UpdateFailed cause)
        \<and> data (async_refresh lib st f clock) = data st
        \<and> heap (async_refresh lib st f clock) = heap st
        \<and> trace (async_refresh lib st f clock)
            = trace st @ (if last_update_success st then [Warned, Errored] else [Warned])
        \<and> \<not> last_update_success (async_refresh lib st f clock))"
  by (auto simp: async_update_data_def async_refresh_def Let_def get_tasks_Nil
      async_update_listeners_frame split: option.splits sum.splits)

lemma reactivate_cases:
  "let cron = dict_get merged ''cron_frequency'' VNone;
       due = (map_of merged ''state'' = Some (VStr ''completed'') \<and> cron \<noteq> VNone
              \<and> cron_run_required lib cron (dict_get merged ''last_completed'' (VStr '''')) now)
   in (due \<longrightarrow> map_of (reactivate lib now merged) ''state'' = Some (VStr ''not_completed'')
              \<and> map_of (reactivate lib now merged) ''visible'' = Some (VBool True)
              \<and> (\<forall>k. k \<noteq> ''state'' \<and> k \<noteq> ''visible'' \<longrightarrow>
                     map_of (reactivate lib now merged) k = map_of merged k))
    \<and> (\<not> due \<longrightarrow> reactivate lib now merged = merged)"
  by (auto simp: Let_def reactivate_def reactivation_due_def update_conv' dict_get_def
      split: option.splits)

lemma set_pending_fields:
  "map_of (set_pending t) ''state'' = Some (VStr ''pending'')"
  "map_of (set_pending t) ''visible'' = Some (VBool True)"
  "k \<noteq> ''state'' \<Longrightarrow> k \<noteq> ''visible'' \<Longrightarrow> map_of (set_pending t) k = map_of t k"
  by (simp_all add: set_pending_def update_conv')

lemma publish_clears_pending:
  "e \<in> set (entities (async_set_updated_data st refs)) \<Longrightarrow> \<not> pending_state e"
  by (auto simp: async_set_updated_data_def Let_def async_update_listeners_def
      handle_coordinator_update_def update_internal_state_def)

section \<open>The recurrence evaluator: one-time tasks\<close>

text \<open>
  C1. With no recurrence expression and an empty string as last completion (the value a
  blank cell has), \<open>cron_run_required\<close> answers False; it answers True only for \<^verbatim>\<open>None\<close>.
\<close>

theorem cron_run_required_blank_last_completed:
  "cron_run_required lib VNone (VStr '''') now = False
   \<and> cron_run_required lib (VStr '''') (VStr '''') now = False
   \<and> cron_run_required lib VNone VNone now = True"
  by (simp add: cron_run_required_def)

section \<open>Reconciliation: the merge\<close>

text \<open>
  C2. For every held list and every sheet that is fetched, the tick returns, and publishes,
  one record per fetched row, in order: the merged record, then passed through the
  reactivation test. The merged record has every field other than \<^verbatim>\<open>state\<close> and
  \<^verbatim>\<open>visible\<close> from the fetched row (and so has the returned record); its \<^verbatim>\<open>state\<close> and
  \<^verbatim>\<open>visible\<close> are those of the held record of the same name, and \<^verbatim>\<open>not_completed\<close> and
  \<^verbatim>\<open>True\<close> when the held list has none.
\<close>

theorem reconciliation_merge:
  assumes "load_sheet f = None" "get_all_records f = Inr rows" "get_tasks rows = Inr raw"
  shows "case async_update_data lib st f clock of
           Inl err \<Rightarrow> False
         | Inr out \<Rightarrow>
             length out = length raw
             \<and> trace (async_refresh lib st f clock) = trace st @ [Published out]
             \<and> (\<forall>i<length raw.
                  let fresh = raw ! i;
                      merged = merge_task (held_by_name st) fresh
                  in out ! i = reactivate lib (clock i) merged
                   \<and> (\<forall>k. k \<noteq> ''state'' \<and> k \<noteq> ''visible'' \<longrightarrow>
                          map_of merged k = map_of fresh k \<and> map_of (out ! i) k = map_of fresh k)
                   \<and> (case previous_record (held_list st) (dict_get fresh ''task'' (VStr ''Unnamed'')) of
                         None \<Rightarrow> map_of merged ''state'' = Some (VStr ''not_completed'')
                                \<and> map_of merged ''visible'' = Some (VBool True)
                       | Some p \<Rightarrow>
                           map_of merged ''state'' = Some (dict_get p ''state'' (VStr ''not_completed''))
                           \<and> map_of merged ''visible'' = Some (dict_get p ''visible'' (VBool True))))"
proof -
  let ?P = "previous_data_by_name (held_list st)"
  let ?out = "update_loop lib ?P clock 0 raw"
  have u: "async_update_data lib st f clock = Inr ?out"
    using assms by (rule async_update_data_fetched)
  have t: "trace (async_refresh lib st f clock) = trace st @ [Published ?out]"
    using u by (rule async_refresh_success(3))
  have each: "let fresh = raw ! i; merged = merge_task ?P fresh
       in ?out ! i = reactivate lib (clock i) merged
        \<and> (\<forall>k. k \<noteq> ''state'' \<and> k \<noteq> ''visible'' \<longrightarrow>
               map_of merged k = map_of fresh k \<and> map_of (?out ! i) k = map_of fresh k)
        \<and> (case previous_record (held_list st) (dict_get fresh ''task'' (VStr ''Unnamed'')) of
              None \<Rightarrow> map_of merged ''state'' = Some (VStr ''not_completed'')
                     \<and> map_of merged ''visible'' = Some (VBool True)
            | Some p \<Rightarrow>
                map_of merged ''state'' = Some (dict_get p ''state'' (VStr ''not_completed''))
                \<and> map_of merged ''visible'' = Some (dict_get p ''visible'' (VBool True)))"
    if i: "i < length raw" for i
  proof -
    have o: "?out ! i = reactivate lib (clock i) (merge_task ?P (raw ! i))"
      using i by (simp add: nth_update_loop update_task_def)
    show ?thesis
      unfolding Let_def o
      using merge_task_carry [of "held_list st" "raw ! i"]
      by (simp add: merge_task_other reactivate_other)
  qed
  show ?thesis
    unfolding u sum.case held_by_name_held_list
    using t each by (simp add: length_update_loop)
qed

theorem reconciliation_merge_witness:
  "load_sheet sample_fetch = None \<and> get_all_records sample_fetch = Inr sample_sheet
   \<and> get_tasks sample_sheet = Inr (map cleaned_task sample_sheet)
   \<and> (0::nat) < length (map cleaned_task sample_sheet)
   \<and> async_update_data sample_lib completed_coordinator sample_fetch (\<lambda>i. 100)
       = Inr [[(''task'', VStr ''A''), (''assigned_to'', VStr ''unknown''), (''cron_frequency'', VNone),
          (''last_completed'', VStr ''2024-01-01T00:00:00''), (''visible'', VBool False),
          (''state'', VStr ''completed'')],
         [(''task'', VStr ''B''), (''assigned_to'', VStr ''unknown''),
          (''cron_frequency'', VStr ''0 8 * * *''),
          (''last_completed'', VStr ''2024-01-01T00:00:00''), (''visible'', VBool True),
          (''state'', VStr ''not_completed'')],
         [(''task'', VStr ''C''), (''assigned_to'', VStr ''unknown''), (''cron_frequency'', VNone),
          (''last_completed'', VStr ''''), (''visible'', VBool True),
          (''state'', VStr ''not_completed'')]]
   \<and> previous_record (held_list completed_coordinator)
         (dict_get (map cleaned_task sample_sheet ! 0) ''task'' (VStr ''Unnamed''))
       = Some [(''task'', VStr ''A''), (''state'', VStr ''completed''), (''visible'', VBool False)]
   \<and> map_of (merge_task (held_by_name completed_coordinator) (map cleaned_task sample_sheet ! 0)) ''state''
       = Some (VStr ''completed'')
   \<and> map_of (merge_task (held_by_name completed_coordinator) (map cleaned_task sample_sheet ! 0)) ''visible''
       = Some (VBool False)
   \<and> trace (async_refresh sample_lib completed_coordinator sample_fetch (\<lambda>i. 100))
       = [Published [[(''task'', VStr ''A''), (''assigned_to'', VStr ''unknown''), (''cron_frequency'', VNone),
          (''last_completed'', VStr ''2024-01-01T00:00:00''), (''visible'', VBool False),
          (''state'', VStr ''completed'')],
         [(''task'', VStr ''B''), (''assigned_to'', VStr ''unknown''),
          (''cron_frequency'', VStr ''0 8 * * *''),
          (''last_completed'', VStr ''2024-01-01T00:00:00''), (''visible'', VBool True),
          (''state'', VStr ''not_completed'')],
         [(''task'', VStr ''C''), (''assigned_to'', VStr ''unknown''), (''cron_frequency'', VNone),
          (''last_completed'', VStr ''''), (''visible'', VBool True),
          (''state'', VStr ''not_completed'')]]]"
proof -
  let ?X = "[[(''task'', VStr ''A''), (''assigned_to'', VStr ''unknown''), (''cron_frequency'', VNone),
          (''last_completed'', VStr ''2024-01-01T00:00:00''), (''visible'', VBool False),
          (''state'', VStr ''completed'')],
         [(''task'', VStr ''B''), (''assigned_to'', VStr ''unknown''),
          (''cron_frequency'', VStr ''0 8 * * *''),
          (''last_completed'', VStr ''2024-01-01T00:00:00''), (''visible'', VBool True),
          (''state'', VStr ''not_completed'')],
         [(''task'', VStr ''C''), (''assigned_to'', VStr ''unknown''), (''cron_frequency'', VNone),
          (''last_completed'', VStr ''''), (''visible'', VBool True),
          (''state'', VStr ''not_completed'')]]"
  have h: "load_sheet sample_fetch = None" "get_all_records sample_fetch = Inr sample_sheet"
    by (simp_all add: sample_fetch_def)
  have g: "get_tasks sample_sheet = Inr (map cleaned_task sample_sheet)"
    by code_simp
  have n: "(0::nat) < length (map cleaned_task sample_sheet)"
    by (simp add: sample_sheet_def)
  have u: "async_update_data sample_lib completed_coordinator sample_fetch (\<lambda>i. 100) = Inr ?X"
    by code_simp
  have p: "previous_record (held_list completed_coordinator)
         (dict_get (map cleaned_task sample_sheet ! 0) ''task'' (VStr ''Unnamed''))
       = Some [(''task'', VStr ''A''), (''state'', VStr ''completed''), (''visible'', VBool False)]"
    by code_simp
  have d: "dict_get [(''task'', VStr ''A''), (''state'', VStr ''completed''), (''visible'', VBool False)] ''state'' (VStr ''not_completed'') = VStr ''completed''"
    "dict_get [(''task'', VStr ''A''), (''state'', VStr ''completed''), (''visible'', VBool False)] ''visible'' (VBool True) = VBool False"
    by (simp_all add: dict_get_def)
  have e: "trace completed_coordinator = []"
    by (simp add: completed_coordinator_def)
  note t = reconciliation_merge [OF h g, of sample_lib completed_coordinator "\<lambda>i. 100",
      unfolded u sum.case]
  from t have 1: "trace (async_refresh sample_lib completed_coordinator sample_fetch (\<lambda>i. 100)) = [Published ?X]"
    by (simp add: e)
  from t [THEN conjunct2, THEN conjunct2, rule_format, OF n]
  have 2: "map_of (merge_task (held_by_name completed_coordinator) (map cleaned_task sample_sheet ! 0)) ''state'' = Some (VStr ''completed'')
     \<and> map_of (merge_task (held_by_name completed_coordinator) (map cleaned_task sample_sheet ! 0)) ''visible'' = Some (VBool False)"
    unfolding Let_def p option.case d by (rule conjunct2 [THEN conjunct2])
  show ?thesis using h g n u p 2 1 by (intro conjI) (simp_all only: simp_thms)
qed

section \<open>Reconciliation: reactivation\<close>

text \<open>
  C3. In a tick whose fetch succeeds, the record returned for a row is the merged record
  set to \<^verbatim>\<open>state = not_completed\<close>, \<^verbatim>\<open>visible = True\<close> exactly when the carried-over state is
  \<^verbatim>\<open>completed\<close>, the recurrence expression is not \<^verbatim>\<open>None\<close> and \<open>cron_run_required\<close> answers
  True for the clock reading taken for it; its other fields stay, and a record that fails
  one of the three conditions is returned as merged. The tick stores these records and
  writes to no other: the records held before are as they were.
\<close>

theorem reactivation_only_when_due:
  assumes "load_sheet f = None" "get_all_records f = Inr rows" "get_tasks rows = Inr raw"
  shows "case async_update_data lib st f clock of
           Inl err \<Rightarrow> False
         | Inr out \<Rightarrow>
             heap (async_refresh lib st f clock) = heap st @ out
             \<and> (\<forall>i<length raw.
                  let merged = merge_task (held_by_name st) (raw ! i);
                      cron = dict_get merged ''cron_frequency'' VNone;
                      due = (map_of merged ''state'' = Some (VStr ''completed'') \<and> cron \<noteq> VNone
                             \<and> cron_run_required lib cron
                                  (dict_get merged ''last_completed'' (VStr '''')) (clock i))
                  in (due \<longrightarrow> map_of (out ! i) ''state'' = Some (VStr ''not_completed'')
                             \<and> map_of (out ! i) ''visible'' = Some (VBool True)
                             \<and> (\<forall>k. k \<noteq> ''state'' \<and> k \<noteq> ''visible'' \<longrightarrow>
                                    map_of (out ! i) k = map_of merged k))
                   \<and> (\<not> due \<longrightarrow> out ! i = merged))"
proof -
  let ?P = "previous_data_by_name (held_list st)"
  let ?out = "update_loop lib ?P clock 0 raw"
  have u: "async_update_data lib st f clock = Inr ?out"
    using assms by (rule async_update_data_fetched)
  have h: "heap (async_refresh lib st f clock) = heap st @ ?out"
    using u by (rule async_refresh_success(1))
  have o: "?out ! i = reactivate lib (clock i) (merge_task ?P (raw ! i))" if "i < length raw" for i
    using that by (simp add: nth_update_loop update_task_def)
  show ?thesis
    unfolding u sum.case held_by_name_held_list
    using h o reactivate_cases [of "merge_task ?P (raw ! i)" lib "clock i" for i]
    by (simp add: Let_def)
qed

theorem reactivation_only_when_due_witness:
  "load_sheet sample_fetch = None \<and> get_all_records sample_fetch = Inr sample_sheet
   \<and> get_tasks sample_sheet = Inr (map cleaned_task sample_sheet)
   \<and> (1::nat) < length (map cleaned_task sample_sheet)
   \<and> (0::nat) < length (map cleaned_task sample_sheet)
   \<and> async_update_data sample_lib completed_coordinator sample_fetch (\<lambda>i. 100)
       = Inr [[(''task'', VStr ''A''), (''assigned_to'', VStr ''unknown''), (''cron_frequency'', VNone),
          (''last_completed'', VStr ''2024-01-01T00:00:00''), (''visible'', VBool False),
          (''state'', VStr ''completed'')],
         [(''task'', VStr ''B''), (''assigned_to'', VStr ''unknown''),
          (''cron_frequency'', VStr ''0 8 * * *''),
          (''last_completed'', VStr ''2024-01-01T00:00:00''), (''visible'', VBool True),
          (''state'', VStr ''not_completed'')],
         [(''task'', VStr ''C''), (''assigned_to'', VStr ''unknown''), (''cron_frequency'', VNone),
          (''last_completed'', VStr ''''), (''visible'', VBool True),
          (''state'', VStr ''not_completed'')]]
   \<and> map_of (merge_task (held_by_name completed_coordinator) (map cleaned_task sample_sheet ! 1)) ''state''
       = Some (VStr ''completed'')
   \<and> dict_get (merge_task (held_by_name completed_coordinator) (map cleaned_task sample_sheet ! 1)) ''cron_frequency'' VNone \<noteq> VNone
   \<and> cron_run_required sample_lib
        (dict_get (merge_task (held_by_name completed_coordinator) (map cleaned_task sample_sheet ! 1)) ''cron_frequency'' VNone)
        (dict_get (merge_task (held_by_name completed_coordinator) (map cleaned_task sample_sheet ! 1)) ''last_completed'' (VStr '''')) 100
   \<and> map_of ([[(''task'', VStr ''A''), (''assigned_to'', VStr ''unknown''), (''cron_frequency'', VNone),
          (''last_completed'', VStr ''2024-01-01T00:00:00''), (''visible'', VBool False),
          (''state'', VStr ''completed'')],
         [(''task'', VStr ''B''), (''assigned_to'', VStr ''unknown''),
          (''cron_frequency'', VStr ''0 8 * * *''),
          (''last_completed'', VStr ''2024-01-01T00:00:00''), (''visible'', VBool True),
          (''state'', VStr ''not_completed'')],
         [(''task'', VStr ''C''), (''assigned_to'', VStr ''unknown''), (''cron_frequency'', VNone),
          (''last_completed'', VStr ''''), (''visible'', VBool True),
          (''state'', VStr ''not_completed'')]] ! 1) ''state'' = Some (VStr ''not_completed'')
   \<and> map_of ([[(''task'', VStr ''A''), (''assigned_to'', VStr ''unknown''), (''cron_frequency'', VNone),
          (''last_completed'', VStr ''2024-01-01T00:00:00''), (''visible'', VBool False),
          (''state'', VStr ''completed'')],
         [(''task'', VStr ''B''), (''assigned_to'', VStr ''unknown''),
          (''cron_frequency'', VStr ''0 8 * * *''),
          (''last_completed'', VStr ''2024-01-01T00:00:00''), (''visible'', VBool True),
          (''state'', VStr ''not_completed'')],
         [(''task'', VStr ''C''), (''assigned_to'', VStr ''unknown''), (''cron_frequency'', VNone),
          (''last_completed'', VStr ''''), (''visible'', VBool True),
          (''state'', VStr ''not_completed'')]] ! 1) ''visible'' = Some (VBool True)
   \<and> dict_get (merge_task (held_by_name completed_coordinator) (map cleaned_task sample_sheet ! 0)) ''cron_frequency'' VNone = VNone
   \<and> [[(''task'', VStr ''A''), (''assigned_to'', VStr ''unknown''), (''cron_frequency'', VNone),
          (''last_completed'', VStr ''2024-01-01T00:00:00''), (''visible'', VBool False),
          (''state'', VStr ''completed'')],
         [(''task'', VStr ''B''), (''assigned_to'', VStr ''unknown''),
          (''cron_frequency'', VStr ''0 8 * * *''),
          (''last_completed'', VStr ''2024-01-01T00:00:00''), (''visible'', VBool True),
          (''state'', VStr ''not_completed'')],
         [(''task'', VStr ''C''), (''assigned_to'', VStr ''unknown''), (''cron_frequency'', VNone),
          (''last_completed'', VStr ''''), (''visible'', VBool True),
          (''state'', VStr ''not_completed'')]] ! 0
       = merge_task (held_by_name completed_coordinator) (map cleaned_task sample_sheet ! 0)
   \<and> heap (async_refresh sample_lib completed_coordinator sample_fetch (\<lambda>i. 100))
       = heap completed_coordinator @ [[(''task'', VStr ''A''), (''assigned_to'', VStr ''unknown''), (''cron_frequency'', VNone),
          (''last_completed'', VStr ''2024-01-01T00:00:00''), (''visible'', VBool False),
          (''state'', VStr ''completed'')],
         [(''task'', VStr ''B''), (''assigned_to'', VStr ''unknown''),
          (''cron_frequency'', VStr ''0 8 * * *''),
          (''last_completed'', VStr ''2024-01-01T00:00:00''), (''visible'', VBool True),
          (''state'', VStr ''not_completed'')],
         [(''task'', VStr ''C''), (''assigned_to'', VStr ''unknown''), (''cron_frequency'', VNone),
          (''last_completed'', VStr ''''), (''visible'', VBool True),
          (''state'', VStr ''not_completed'')]]"
proof -
  let ?X = "[[(''task'', VStr ''A''), (''assigned_to'', VStr ''unknown''), (''cron_frequency'', VNone),
          (''last_completed'', VStr ''2024-01-01T00:00:00''), (''visible'', VBool False),
          (''state'', VStr ''completed'')],
         [(''task'', VStr ''B''), (''assigned_to'', VStr ''unknown''),
          (''cron_frequency'', VStr ''0 8 * * *''),
          (''last_completed'', VStr ''2024-01-01T00:00:00''), (''visible'', VBool True),
          (''state'', VStr ''not_completed'')],
         [(''task'', VStr ''C''), (''assigned_to'', VStr ''unknown''), (''cron_frequency'', VNone),
          (''last_completed'', VStr ''''), (''visible'', VBool True),
          (''state'', VStr ''not_completed'')]]"
  have h: "load_sheet sample_fetch = None" "get_all_records sample_fetch = Inr sample_sheet"
    by (simp_all add: sample_fetch_def)
  have g: "get_tasks sample_sheet = Inr (map cleaned_task sample_sheet)"
    by code_simp
  have n: "(1::nat) < length (map cleaned_task sample_sheet)"
    "(0::nat) < length (map cleaned_task sample_sheet)"
    by (simp_all add: sample_sheet_def)
  have u: "async_update_data sample_lib completed_coordinator sample_fetch (\<lambda>i. 100) = Inr ?X"
    by code_simp
  have d: "map_of (merge_task (held_by_name completed_coordinator) (map cleaned_task sample_sheet ! 1)) ''state'' = Some (VStr ''completed'')"
    "dict_get (merge_task (held_by_name completed_coordinator) (map cleaned_task sample_sheet ! 1)) ''cron_frequency'' VNone \<noteq> VNone"
    "cron_run_required sample_lib
        (dict_get (merge_task (held_by_name completed_coordinator) (map cleaned_task sample_sheet ! 1)) ''cron_frequency'' VNone)
        (dict_get (merge_task (held_by_name completed_coordinator) (map cleaned_task sample_sheet ! 1)) ''last_completed'' (VStr '''')) 100"
    "dict_get (merge_task (held_by_name completed_coordinator) (map cleaned_task sample_sheet ! 0)) ''cron_frequency'' VNone = VNone"
    by code_simp+
  note t = reactivation_only_when_due [OF h g, of sample_lib completed_coordinator "\<lambda>i. 100",
      unfolded u sum.case]
  from t have 1: "heap (async_refresh sample_lib completed_coordinator sample_fetch (\<lambda>i. 100)) = heap completed_coordinator @ ?X"
    by (rule conjunct1)
  from t [THEN conjunct2, rule_format, OF n(1)] d
  have 2: "map_of (?X ! 1) ''state'' = Some (VStr ''not_completed'')
          \<and> map_of (?X ! 1) ''visible'' = Some (VBool True)"
    by (simp add: Let_def)
  from t [THEN conjunct2, rule_format, OF n(2)] d
  have 3: "?X ! 0 = merge_task (held_by_name completed_coordinator) (map cleaned_task sample_sheet ! 0)"
    by (simp add: Let_def)
  show ?thesis using h g n u d 2 3 1 by (intro conjI) (simp_all only: simp_thms)
qed

section \<open>Fetching: required columns\<close>

text \<open>
  C5. The check for required columns of \<open>get_tasks\<close> looks at the normalised record, in
  which \<^verbatim>\<open>task\<close>, \<^verbatim>\<open>cron_frequency\<close> and \<^verbatim>\<open>last_completed\<close> have just been filled in with
  defaults: a sheet whose rows have none of these columns is accepted, and the error for
  missing columns is never returned.
\<close>

theorem get_tasks_never_missing_columns:
  "get_tasks [[(''Name'', VStr ''x'')]]
     = Inr [[(''task'', VStr ''''), (''assigned_to'', VStr ''unknown''),
             (''cron_frequency'', VNone), (''last_completed'', VStr ''''),
             (''visible'', VBool True), (''name'', VStr ''x'')]]
   \<and> get_tasks rows \<noteq> Inl (MissingColumns cols)"
proof
  show "get_tasks [[(''Name'', VStr ''x'')]]
     = Inr [[(''task'', VStr ''''), (''assigned_to'', VStr ''unknown''),
             (''cron_frequency'', VNone), (''last_completed'', VStr ''''),
             (''visible'', VBool True), (''name'', VStr ''x'')]]"
    by code_simp
  show "get_tasks rows \<noteq> Inl (MissingColumns cols)"
    by (cases rows) (simp_all add: get_tasks_def cleaned_task_has_required)
qed

section \<open>Fetching: the normalised record\<close>

text \<open>
  C10. Every record returned by \<open>get_tasks\<close> has the keys \<^verbatim>\<open>task\<close>, \<^verbatim>\<open>assigned_to\<close>,
  \<^verbatim>\<open>cron_frequency\<close>, \<^verbatim>\<open>last_completed\<close> and \<^verbatim>\<open>visible\<close>; its \<^verbatim>\<open>cron_frequency\<close> is never the
  empty string, and is \<^verbatim>\<open>None\<close> when the sheet cell is missing or blank, in which case the
  loop of the reconciliation leaves the merged record as it is: no reactivation.
\<close>

theorem get_tasks_cron_frequency:
  assumes "get_tasks rows = Inr tasks"
  shows "length tasks = length rows
   \<and> (\<forall>i<length rows.
        let t = tasks ! i in
          dict_has t ''task'' \<and> dict_has t ''assigned_to'' \<and> dict_has t ''cron_frequency''
          \<and> dict_has t ''last_completed'' \<and> dict_has t ''visible''
          \<and> map_of t ''cron_frequency'' \<noteq> Some (VStr '''')
          \<and> (blank_cell (rows ! i) ''cron_frequency'' \<longrightarrow>
                map_of t ''cron_frequency'' = Some VNone
                \<and> (\<forall>lib previous now. update_task lib previous now t = merge_task previous t)))"
proof -
  have tasks: "tasks = map cleaned_task rows"
    using assms by (rule get_tasks_Inr)
  show ?thesis
    unfolding tasks Let_def
    by (simp add: cleaned_task_keys cleaned_task_cron or_None_not_empty blank_cell_or_None
        no_cron_no_reactivation)
qed

theorem get_tasks_cron_frequency_witness:
  "get_tasks [[(''Task'', VStr ''Bins''), (''Cron_Frequency'', VStr ''  '')]]
     = Inr [[(''task'', VStr ''Bins''), (''assigned_to'', VStr ''unknown''),
             (''cron_frequency'', VNone), (''last_completed'', VStr ''''),
             (''visible'', VBool True)]]
   \<and> (0::nat) < length [[(''Task'', VStr ''Bins''), (''Cron_Frequency'', VStr ''  '')]]
   \<and> blank_cell ([[(''Task'', VStr ''Bins''), (''Cron_Frequency'', VStr ''  '')]] ! 0) ''cron_frequency''
   \<and> update_task sample_lib
        (previous_data_by_name [[(''task'', VStr ''Bins''), (''state'', VStr ''completed''),
                                 (''visible'', VBool False)]]) 5
        [(''task'', VStr ''Bins''), (''assigned_to'', VStr ''unknown''),
         (''cron_frequency'', VNone), (''last_completed'', VStr ''''), (''visible'', VBool True)]
      = merge_task
        (previous_data_by_name [[(''task'', VStr ''Bins''), (''state'', VStr ''completed''),
                                 (''visible'', VBool False)]])
        [(''task'', VStr ''Bins''), (''assigned_to'', VStr ''unknown''),
         (''cron_frequency'', VNone), (''last_completed'', VStr ''''), (''visible'', VBool True)]"
proof -
  have g: "get_tasks [[(''Task'', VStr ''Bins''), (''Cron_Frequency'', VStr ''  '')]]
     = Inr [[(''task'', VStr ''Bins''), (''assigned_to'', VStr ''unknown''),
             (''cron_frequency'', VNone), (''last_completed'', VStr ''''),
             (''visible'', VBool True)]]"
    by code_simp
  have b: "blank_cell ([[(''Task'', VStr ''Bins''), (''Cron_Frequency'', VStr ''  '')]] ! 0) ''cron_frequency''"
    by code_simp
  show ?thesis
    using get_tasks_cron_frequency [OF g] g b by (simp add: Let_def)
qed


section \<open>A tick on a sheet without the required columns\<close>

text \<open>
  C4. A tick whose fetch fails is to publish nothing. For a failure of the store and for a
  sheet without rows the tick does raise and keeps the held list (\<open>failed_fetch_keeps_list\<close>
  above), but a sheet whose header has none of the required columns is not a failure for
  the code: the rows are filled with defaults, and the tick succeeds and replaces the held
  list \<open>[0, 1]\<close> by a list of one record made of defaults.
\<close>

theorem tick_accepts_header_without_columns:
  "data sample_coordinator = Some [0, 1]
   \<and> async_update_data sample_lib sample_coordinator
        \<lparr>load_sheet = None, get_all_records = Inr [[(''Name'', VStr ''x'')]]\<rparr> (\<lambda>i. 0)
       = Inr [[(''task'', VStr ''''), (''assigned_to'', VStr ''unknown''), (''cron_frequency'', VNone),
               (''last_completed'', VStr ''''), (''visible'', VBool True), (''name'', VStr ''x''),
               (''state'', VStr ''not_completed'')]]
   \<and> data (async_refresh sample_lib sample_coordinator
        \<lparr>load_sheet = None, get_all_records = Inr [[(''Name'', VStr ''x'')]]\<rparr> (\<lambda>i. 0)) = Some [2]
   \<and> last_update_success (async_refresh sample_lib sample_coordinator
        \<lparr>load_sheet = None, get_all_records = Inr [[(''Name'', VStr ''x'')]]\<rparr> (\<lambda>i. 0))
   \<and> trace (async_refresh sample_lib sample_coordinator
        \<lparr>load_sheet = None, get_all_records = Inr [[(''Name'', VStr ''x'')]]\<rparr> (\<lambda>i. 0))
       = [Published
            [[(''task'', VStr ''''), (''assigned_to'', VStr ''unknown''), (''cron_frequency'', VNone),
              (''last_completed'', VStr ''''), (''visible'', VBool True), (''name'', VStr ''x''),
              (''state'', VStr ''not_completed'')]]]"
  by code_simp

section \<open>Completing a task\<close>

text \<open>
  C7. Completing a task that is in the held list sets its record to \<^verbatim>\<open>completed\<close>, not
  visible, with \<open>now\<close> as last completion, and hands the list to the subscribers first:
  the writes to the worksheets are all that follows in the trace. Whatever the worksheets
  answer, the record stays completed; a write that raises ends in an error log line.
\<close>

theorem complete_publishes_before_writing:
  assumes "wf st" "data st = Some refs" "find_task st refs task_name = Some a"
    "task_name \<noteq> VNone"
  shows "take (Suc (length (trace st))) (trace (async_complete_task st ws task_name user_id now log_time))
           = trace st @ [Published (deref (async_complete_task st ws task_name user_id now log_time) refs)]
   \<and> drop (Suc (length (trace st))) (trace (async_complete_task st ws task_name user_id now log_time))
           = sheet_updates ws task_name user_id now log_time
   \<and> data (async_complete_task st ws task_name user_id now log_time) = Some refs
   \<and> map_of (heap (async_complete_task st ws task_name user_id now log_time) ! a) ''state''
           = Some (VStr ''completed'')
   \<and> map_of (heap (async_complete_task st ws task_name user_id now log_time) ! a) ''visible''
           = Some (VBool False)
   \<and> map_of (heap (async_complete_task st ws task_name user_id now log_time) ! a) ''last_completed''
           = Some (VStr now)
   \<and> (snd (update_task_status ws task_name now) \<noteq> None
        \<or> snd (log_action ws log_time task_name ''completed'' user_id) \<noteq> None
       \<longrightarrow> last (trace (async_complete_task st ws task_name user_id now log_time)) = Errored)"
proof -
  let ?st' = "async_complete_task st ws task_name user_id now log_time"
  let ?st1 = "st\<lparr>heap := (heap st)[a := complete_record now (heap st ! a)]\<rparr>"
  note eq = async_complete_task_found [OF assms, of ws user_id now log_time]
  have a: "a < length (heap st)"
    using wf_ref [OF assms(1,2)] find_task_Some(1) [OF assms(3)] by simp
  have h: "heap ?st' = (heap st)[a := complete_record now (heap st ! a)]"
    by (simp add: eq async_set_updated_data_frame)
  have d: "data ?st' = Some refs"
    by (simp add: eq async_set_updated_data_frame)
  have t: "trace ?st' = trace st @ [Published (deref ?st' refs)]
             @ sheet_updates ws task_name user_id now log_time"
    using deref_heap [of ?st' ?st1 refs] h by (simp add: eq)
  have r: "heap ?st' ! a = complete_record now (heap st ! a)"
    using a by (simp add: h)
  have l: "last (trace ?st') = Errored"
    if "snd (update_task_status ws task_name now) \<noteq> None
        \<or> snd (log_action ws log_time task_name ''completed'' user_id) \<noteq> None"
    using that unfolding t
    by (auto simp: sheet_updates_def log_action_def Let_def split: prod.splits option.splits)
  have "take (Suc (length (trace st))) (trace ?st') = trace st @ [Published (deref ?st' refs)]"
    by (subst t) simp
  moreover have "drop (Suc (length (trace st))) (trace ?st')
                 = sheet_updates ws task_name user_id now log_time"
    by (subst t) simp
  ultimately show ?thesis
    using d l by (simp add: r complete_record_fields)
qed


theorem complete_publishes_before_writing_witness:
  "wf sample_coordinator \<and> data sample_coordinator = Some [0, 1]
   \<and> find_task sample_coordinator [0, 1] (VStr ''A'') = Some 0
   \<and> snd (update_task_status failing_worksheets (VStr ''A'') ''2024-05-01T10:00:00-05:00'') \<noteq> None
   \<and> trace (async_complete_task sample_coordinator failing_worksheets (VStr ''A'') ''bob''
               ''2024-05-01T10:00:00-05:00'' ''2024-05-01T15:00:00'')
       = [Published
            [[(''task'', VStr ''A''), (''assigned_to'', VStr ''kid''), (''state'', VStr ''completed''),
              (''visible'', VBool False), (''last_completed'', VStr ''2024-05-01T10:00:00-05:00'')],
             [(''task'', VStr ''B''), (''assigned_to'', VStr ''kid''), (''state'', VStr ''completed''),
              (''visible'', VBool False)]],
          CellWrite 2 2 ''2024-05-01T10:00:00-05:00'', Errored, Errored]
   \<and> map_of (heap (async_complete_task sample_coordinator failing_worksheets (VStr ''A'') ''bob''
                      ''2024-05-01T10:00:00-05:00'' ''2024-05-01T15:00:00'') ! 0) ''state''
       = Some (VStr ''completed'')
   \<and> last (trace (async_complete_task sample_coordinator failing_worksheets (VStr ''A'') ''bob''
               ''2024-05-01T10:00:00-05:00'' ''2024-05-01T15:00:00'')) = Errored"
proof -
  have w: "wf sample_coordinator" by code_simp
  have d: "data sample_coordinator = Some [0, 1]" by (simp add: sample_coordinator_def)
  have f: "find_task sample_coordinator [0, 1] (VStr ''A'') = Some 0" by code_simp
  have n: "VStr ''A'' \<noteq> VNone" by simp
  have u: "snd (update_task_status failing_worksheets (VStr ''A'') ''2024-05-01T10:00:00-05:00'') \<noteq> None"
    by code_simp
  have t: "trace (async_complete_task sample_coordinator failing_worksheets (VStr ''A'') ''bob''
               ''2024-05-01T10:00:00-05:00'' ''2024-05-01T15:00:00'')
       = [Published
            [[(''task'', VStr ''A''), (''assigned_to'', VStr ''kid''), (''state'', VStr ''completed''),
              (''visible'', VBool False), (''last_completed'', VStr ''2024-05-01T10:00:00-05:00'')],
             [(''task'', VStr ''B''), (''assigned_to'', VStr ''kid''), (''state'', VStr ''completed''),
              (''visible'', VBool False)]],
          CellWrite 2 2 ''2024-05-01T10:00:00-05:00'', Errored, Errored]"
    by code_simp
  note c = complete_publishes_before_writing [OF w d f n, of failing_worksheets "''bob''"
      "''2024-05-01T10:00:00-05:00''" "''2024-05-01T15:00:00''"]
  have s: "map_of (heap (async_complete_task sample_coordinator failing_worksheets (VStr ''A'') ''bob''
                      ''2024-05-01T10:00:00-05:00'' ''2024-05-01T15:00:00'') ! 0) ''state''
       = Some (VStr ''completed'')"
    using c by (elim conjE)
  have l: "last (trace (async_complete_task sample_coordinator failing_worksheets (VStr ''A'') ''bob''
               ''2024-05-01T10:00:00-05:00'' ''2024-05-01T15:00:00'')) = Errored"
    using c u by (elim conjE) blast
  show ?thesis using w d f u t s l by (intro conjI)
qed

section \<open>Record objects and the published list\<close>

text \<open>
  C6, as the code has it. A tick changes no record that was allocated before it; when it
  succeeds, the held list becomes the list of the records it has just built, which is what
  the subscribers are handed, and when it fails the held list and every record stay. An
  accepted press on a task of the held list publishes nothing: the held list is the same
  and the trace gains the event only, while \<^verbatim>\<open>state = pending\<close> and \<^verbatim>\<open>visible = True\<close> are
  written into the record object of the held list, its other fields unchanged.
\<close>

theorem publish_and_record_objects:
  "(\<forall>a<length (heap st). heap (async_refresh lib st f clock) ! a = heap st ! a)
   \<and> (async_update_data lib st f clock = Inr tasks \<longrightarrow>
        data (async_refresh lib st f clock)
          = Some [length (heap st) ..< length (heap st) + length tasks]
        \<and> deref (async_refresh lib st f clock)
            [length (heap st) ..< length (heap st) + length tasks] = tasks
        \<and> trace (async_refresh lib st f clock) = trace st @ [Published tasks])
   \<and> (async_update_data lib st f clock = Inl err \<longrightarrow>
        data (async_refresh lib st f clock) = data st
        \<and> heap (async_refresh lib st f clock) = heap st)
   \<and> (wf st \<and> data st = Some refs \<and> \<not> pending_state (entities st ! i)
        \<and> state st (entities st ! i) \<noteq> VStr ''completed''
        \<and> find_task st refs (VStr (task_id (entities st ! i))) = Some b \<longrightarrow>
        data (async_press st i) = Some refs
        \<and> trace (async_press st i) = trace st @ [Fired (event_data (entities st ! i))]
        \<and> heap (async_press st i) = (heap st)[b := set_pending (heap st ! b)]
        \<and> map_of (heap (async_press st i) ! b) ''state'' = Some (VStr ''pending'')
        \<and> map_of (heap (async_press st i) ! b) ''visible'' = Some (VBool True)
        \<and> (\<forall>k. k \<noteq> ''state'' \<and> k \<noteq> ''visible'' \<longrightarrow>
               map_of (heap (async_press st i) ! b) k = map_of (heap st ! b) k))"
proof -
  have 1: "\<forall>a<length (heap st). heap (async_refresh lib st f clock) ! a = heap st ! a"
    by (simp add: async_refresh_heap nth_append split: sum.splits)
  have 2: "data (async_refresh lib st f clock)
          = Some [length (heap st) ..< length (heap st) + length tasks]
        \<and> deref (async_refresh lib st f clock)
            [length (heap st) ..< length (heap st) + length tasks] = tasks
        \<and> trace (async_refresh lib st f clock) = trace st @ [Published tasks]"
    if "async_update_data lib st f clock = Inr tasks"
    using async_refresh_success [OF that] by (simp add: deref_fresh)
  have 3: "data (async_refresh lib st f clock) = data st
        \<and> heap (async_refresh lib st f clock) = heap st"
    if "async_update_data lib st f clock = Inl err"
    using that by (simp add: async_refresh_def async_update_listeners_frame)
  have 4: "data (async_press st i) = Some refs
        \<and> trace (async_press st i) = trace st @ [Fired (event_data (entities st ! i))]
        \<and> heap (async_press st i) = (heap st)[b := set_pending (heap st ! b)]
        \<and> map_of (heap (async_press st i) ! b) ''state'' = Some (VStr ''pending'')
        \<and> map_of (heap (async_press st i) ! b) ''visible'' = Some (VBool True)
        \<and> (\<forall>k. k \<noteq> ''state'' \<and> k \<noteq> ''visible'' \<longrightarrow>
               map_of (heap (async_press st i) ! b) k = map_of (heap st ! b) k)"
    if a: "wf st \<and> data st = Some refs \<and> \<not> pending_state (entities st ! i)
        \<and> state st (entities st ! i) \<noteq> VStr ''completed''
        \<and> find_task st refs (VStr (task_id (entities st ! i))) = Some b"
  proof -
    have b: "b < length (heap st)"
      using a wf_ref [of st refs b] find_task_Some(1) [of st refs _ b] by blast
    have p: "async_press st i
       = st\<lparr>entities := (entities st)[i := (entities st ! i)\<lparr>pending_state := True\<rparr>],
            heap := (heap st)[b := set_pending (heap st ! b)],
            trace := trace st @ [Fired (event_data (entities st ! i))]\<rparr>"
      using a by (simp add: async_press_accepted)
    show ?thesis
      using a b by (simp add: p set_pending_fields)
  qed
  show ?thesis
    by (intro conjI) (rule 1, (rule impI, erule 2), (rule impI, erule 3), (rule impI, erule 4))
qed

theorem publish_and_record_objects_witness:
  "(0::nat) < length (heap sample_coordinator)
   \<and> async_update_data sample_lib sample_coordinator
        \<lparr>load_sheet = None, get_all_records = Inr [[(''Task'', VStr ''A'')]]\<rparr> (\<lambda>i. 0)
       = Inr [[(''task'', VStr ''A''), (''assigned_to'', VStr ''unknown''), (''cron_frequency'', VNone),
               (''last_completed'', VStr ''''), (''visible'', VBool True),
               (''state'', VStr ''not_completed'')]]
   \<and> heap (async_refresh sample_lib sample_coordinator
        \<lparr>load_sheet = None, get_all_records = Inr [[(''Task'', VStr ''A'')]]\<rparr> (\<lambda>i. 0)) ! 0
       = heap sample_coordinator ! 0
   \<and> data (async_refresh sample_lib sample_coordinator
        \<lparr>load_sheet = None, get_all_records = Inr [[(''Task'', VStr ''A'')]]\<rparr> (\<lambda>i. 0))
       = Some [2]
   \<and> async_update_data sample_lib sample_coordinator
        \<lparr>load_sheet = Some ApiError, get_all_records = Inr []\<rparr> (\<lambda>i. 0)
       = Inl (UpdateFailed ApiError)
   \<and> heap (async_refresh sample_lib sample_coordinator
        \<lparr>load_sheet = Some ApiError, get_all_records = Inr []\<rparr> (\<lambda>i. 0)) = heap sample_coordinator
   \<and> wf sample_coordinator
   \<and> data sample_coordinator = Some [0, 1] \<and> \<not> pending_state (entities sample_coordinator ! 0)
   \<and> state sample_coordinator (entities sample_coordinator ! 0) \<noteq> VStr ''completed''
   \<and> find_task sample_coordinator [0, 1] (VStr (task_id (entities sample_coordinator ! 0))) = Some 0
   \<and> heap (async_press sample_coordinator 0)
       = (heap sample_coordinator)[0 := set_pending (heap sample_coordinator ! 0)]
   \<and> map_of (heap (async_press sample_coordinator 0) ! 0) ''state'' = Some (VStr ''pending'')
   \<and> data (async_press sample_coordinator 0) = Some [0, 1]"
proof -
  let ?f = "\<lparr>load_sheet = None, get_all_records = Inr [[(''Task'', VStr ''A'')]]\<rparr> :: fetch"
  let ?g = "\<lparr>load_sheet = Some ApiError, get_all_records = Inr []\<rparr> :: fetch"
  let ?T = "[[(''task'', VStr ''A''), (''assigned_to'', VStr ''unknown''), (''cron_frequency'', VNone),
               (''last_completed'', VStr ''''), (''visible'', VBool True),
               (''state'', VStr ''not_completed'')]]"
  have n: "(0::nat) < length (heap sample_coordinator)" "length (heap sample_coordinator) = 2"
    by (simp_all add: sample_coordinator_def)
  have u: "async_update_data sample_lib sample_coordinator ?f (\<lambda>i. 0) = Inr ?T"
    by code_simp
  have v: "async_update_data sample_lib sample_coordinator ?g (\<lambda>i. 0) = Inl (UpdateFailed ApiError)"
    by code_simp
  have w: "wf sample_coordinator" by code_simp
  have h: "data sample_coordinator = Some [0, 1]" "\<not> pending_state (entities sample_coordinator ! 0)"
    "state sample_coordinator (entities sample_coordinator ! 0) \<noteq> VStr ''completed''"
    "find_task sample_coordinator [0, 1] (VStr (task_id (entities sample_coordinator ! 0))) = Some 0"
    by code_simp+
  note t = publish_and_record_objects [where st = sample_coordinator and lib = sample_lib
      and f = ?f and clock = "\<lambda>i. 0" and tasks = ?T]
  note t' = publish_and_record_objects [where st = sample_coordinator and lib = sample_lib
      and f = ?g and clock = "\<lambda>i. 0" and err = "UpdateFailed ApiError"]
  note t'' = publish_and_record_objects [where st = sample_coordinator and i = 0
      and refs = "[0, 1]" and b = 0]
  from t n(1) have 1: "heap (async_refresh sample_lib sample_coordinator ?f (\<lambda>i. 0)) ! 0
       = heap sample_coordinator ! 0"
    by blast
  from t u have 2: "data (async_refresh sample_lib sample_coordinator ?f (\<lambda>i. 0)) = Some [2]"
    by (simp add: n(2))
  from t' v have 3: "heap (async_refresh sample_lib sample_coordinator ?g (\<lambda>i. 0))
       = heap sample_coordinator"
    by blast
  from t'' w h have 4: "heap (async_press sample_coordinator 0)
       = (heap sample_coordinator)[0 := set_pending (heap sample_coordinator ! 0)]
     \<and> map_of (heap (async_press sample_coordinator 0) ! 0) ''state'' = Some (VStr ''pending'')
     \<and> data (async_press sample_coordinator 0) = Some [0, 1]"
    by blast
  show ?thesis
    using n(1) u 1 2 v 3 w h 4 [THEN conjunct1] 4 [THEN conjunct2, THEN conjunct1]
      4 [THEN conjunct2, THEN conjunct2]
    by (intro conjI)
qed

text \<open>
  The record at address 0 of the held list \<open>[0, 1]\<close> is \<^verbatim>\<open>not_completed\<close>; after a press
  the held list is the same and nothing was published, yet that record reads
  \<^verbatim>\<open>pending\<close>, and after a completion \<^verbatim>\<open>completed\<close>: a reader of the earlier snapshot
  sees its record change.
\<close>

theorem press_changes_held_record:
  "data sample_coordinator = Some [0, 1]
   \<and> data (async_press sample_coordinator 0) = Some [0, 1]
   \<and> trace (async_press sample_coordinator 0) = [Fired (event_data sample_entity)]
   \<and> map_of (heap sample_coordinator ! 0) ''state'' = Some (VStr ''not_completed'')
   \<and> map_of (heap (async_press sample_coordinator 0) ! 0) ''state'' = Some (VStr ''pending'')
   \<and> map_of (heap (async_complete_task sample_coordinator failing_worksheets (VStr ''A'') ''bob''
                      ''2024-05-01T10:00:00-05:00'' ''2024-05-01T15:00:00'') ! 0) ''state''
       = Some (VStr ''completed'')"
  by code_simp

section \<open>Pressing the button\<close>

text \<open>
  C8, as the code has it. A press is ignored, with a warning and nothing else changed,
  when the pending flag of the entity is set or its state is \<^verbatim>\<open>completed\<close>. A press that
  is accepted fires one event and leaves the entity \<^verbatim>\<open>pending\<close>, and a second press right
  after it is ignored: two presses, one event.
\<close>

theorem press_guard:
  "(pending_state (entities st ! i)
      \<or> (data st \<noteq> None \<and> state st (entities st ! i) = VStr ''completed'')
    \<longrightarrow> async_press st i = st\<lparr>trace := trace st @ [Warned]\<rparr>)
   \<and> (i < length (entities st) \<and> data st \<noteq> None \<and> \<not> pending_state (entities st ! i)
       \<and> state st (entities st ! i) \<noteq> VStr ''completed''
    \<longrightarrow> trace (async_press st i) = trace st @ [Fired (event_data (entities st ! i))]
        \<and> state (async_press st i) (entities (async_press st i) ! i) = VStr ''pending''
        \<and> async_press (async_press st i) i
            = (async_press st i)\<lparr>trace := trace st @ [Fired (event_data (entities st ! i)), Warned]\<rparr>)"
proof (intro conjI impI)
  assume "pending_state (entities st ! i)
      \<or> (data st \<noteq> None \<and> state st (entities st ! i) = VStr ''completed'')"
  then show "async_press st i = st\<lparr>trace := trace st @ [Warned]\<rparr>"
    by (auto simp: async_press_pending async_press_completed)
next
  assume a: "i < length (entities st) \<and> data st \<noteq> None \<and> \<not> pending_state (entities st ! i)
       \<and> state st (entities st ! i) \<noteq> VStr ''completed''"
  then obtain refs where refs: "data st = Some refs" by auto
  note acc = async_press_accepted [OF refs, of i]
  have t: "trace (async_press st i) = trace st @ [Fired (event_data (entities st ! i))]"
    using a by (simp add: acc split: option.splits)
  have p: "pending_state (entities (async_press st i) ! i)"
    using a by (simp add: acc split: option.splits)
  show "trace (async_press st i) = trace st @ [Fired (event_data (entities st ! i))]"
    by (rule t)
  show "state (async_press st i) (entities (async_press st i) ! i) = VStr ''pending''"
    using p by (simp add: state_def)
  show "async_press (async_press st i) i
            = (async_press st i)\<lparr>trace := trace st @ [Fired (event_data (entities st ! i)), Warned]\<rparr>"
    using async_press_pending [OF p] by (simp add: t)
qed

theorem press_guard_witness:
  "(0::nat) < length (entities sample_coordinator) \<and> data sample_coordinator \<noteq> None
   \<and> \<not> pending_state (entities sample_coordinator ! 0)
   \<and> state sample_coordinator (entities sample_coordinator ! 0) \<noteq> VStr ''completed''
   \<and> trace (async_press sample_coordinator 0) = [Fired (event_data sample_entity)]
   \<and> trace (async_press (async_press sample_coordinator 0) 0)
       = [Fired (event_data sample_entity), Warned]
   \<and> pending_state (entities (async_press sample_coordinator 0) ! 0)
   \<and> async_press (async_press sample_coordinator 0) 0
       = (async_press sample_coordinator 0)\<lparr>trace := trace (async_press sample_coordinator 0) @ [Warned]\<rparr>"
proof -
  have h: "(0::nat) < length (entities sample_coordinator)" "data sample_coordinator \<noteq> None"
    "\<not> pending_state (entities sample_coordinator ! 0)"
    "state sample_coordinator (entities sample_coordinator ! 0) \<noteq> VStr ''completed''"
    by code_simp+
  have e: "entities sample_coordinator ! 0 = sample_entity" "trace sample_coordinator = []"
    by (simp_all add: sample_coordinator_def)
  have p: "pending_state (entities (async_press sample_coordinator 0) ! 0)"
    by code_simp
  note g = press_guard [of sample_coordinator 0]
  from g h have 1: "trace (async_press sample_coordinator 0) = [Fired (event_data sample_entity)]"
    by (simp add: e)
  from g h have 2: "async_press (async_press sample_coordinator 0) 0
            = (async_press sample_coordinator 0)\<lparr>trace := [Fired (event_data sample_entity), Warned]\<rparr>"
    by (simp add: e)
  from press_guard [of "async_press sample_coordinator 0" 0] p
  have 3: "async_press (async_press sample_coordinator 0) 0
       = (async_press sample_coordinator 0)\<lparr>trace := trace (async_press sample_coordinator 0) @ [Warned]\<rparr>"
    by simp
  have 4: "trace (async_press (async_press sample_coordinator 0) 0)
       = [Fired (event_data sample_entity), Warned]"
    by (subst 2) simp
  show ?thesis using h 1 4 p 3 by (intro conjI)
qed


text \<open>
  Task A is pressed, then task B is reopened, which publishes and so clears the pending
  flag of every entity. The state of A still reads \<^verbatim>\<open>pending\<close>, from its record, and a
  press on A fires a second event.
\<close>

theorem press_again_after_publish:
  "state (async_incomplete_pending_task (async_press sample_coordinator 0) (VStr ''B''))
     (entities (async_incomplete_pending_task (async_press sample_coordinator 0) (VStr ''B'')) ! 0)
     = VStr ''pending''
   \<and> trace (async_press
        (async_incomplete_pending_task (async_press sample_coordinator 0) (VStr ''B'')) 0)
     = trace (async_incomplete_pending_task (async_press sample_coordinator 0) (VStr ''B''))
       @ [Fired (event_data sample_entity)]"
  by code_simp

section \<open>The schedule\<close>

text \<open>
  C9. For every UTC datetime \<open>now\<close>, the datetime computed by
  \<open>schedule_five_minutely_refresh\<close> is strictly later than \<open>now\<close>, its minute is a multiple
  of 5, its seconds and microseconds are zero, and no datetime with these properties lies
  strictly between: it is the nearest such instant in the future.
\<close>

theorem next_refresh_boundary:
  assumes "valid now"
  shows "valid (schedule_five_minutely_refresh now)
   \<and> instant now < instant (schedule_five_minutely_refresh now)
   \<and> minute (schedule_five_minutely_refresh now) mod 5 = 0
   \<and> second (schedule_five_minutely_refresh now) = 0
   \<and> microsecond (schedule_five_minutely_refresh now) = 0
   \<and> (\<forall>d. valid d \<and> instant now < instant d \<and> minute d mod 5 = 0 \<and> second d = 0
            \<and> microsecond d = 0
          \<longrightarrow> instant (schedule_five_minutely_refresh now) \<le> instant d)"
proof -
  let ?n = "schedule_five_minutely_refresh now"
  note s = schedule_minutes [OF assms]
  have v: "0 \<le> second now" "second now < 60" "0 \<le> microsecond now" "microsecond now < 1000000"
    using assms by (simp_all add: valid_def)
  have n: "instant ?n = (5 * (minutes now div 5) + 5) * 60000000"
    by (simp add: instant_minutes s)
  have lo: "minutes now * 60000000 \<le> instant now"
    using v by (simp add: instant_minutes)
  have hi: "instant now < (minutes now + 1) * 60000000"
    using v by (simp add: instant_minutes)
  have "minutes now + 1 \<le> 5 * (minutes now div 5) + 5" by presburger
  then have "(minutes now + 1) * 60000000 \<le> instant ?n"
    unfolding n by simp
  with hi have less: "instant now < instant ?n" by simp
  have least: "instant ?n \<le> instant d"
    if d: "valid d" "instant now < instant d" "minute d mod 5 = 0" "second d = 0" "microsecond d = 0"
    for d
  proof -
    have i: "instant d = minutes d * 60000000"
      using d by (simp add: instant_minutes)
    have "minutes now * 60000000 < minutes d * 60000000"
      using lo d(2) i by simp
    then have "minutes now < minutes d" by simp
    moreover have "minutes d mod 5 = 0" using d(3) by (simp add: minutes_mod_5)
    ultimately have "5 * (minutes now div 5) + 5 \<le> minutes d" by presburger
    then show ?thesis unfolding n i by simp
  qed
  have all: "\<forall>d. valid d \<and> instant now < instant d \<and> minute d mod 5 = 0 \<and> second d = 0
            \<and> microsecond d = 0
          \<longrightarrow> instant ?n \<le> instant d"
    using least by (intro allI impI) (elim conjE)
  from s(5) less s(4) s(2) s(3) all show ?thesis
    by (intro conjI)
qed

theorem next_refresh_boundary_witness:
  "valid \<lparr>ordinal = 738000, hour = 23, minute = 58, second = 20, microsecond = 5\<rparr>
   \<and> schedule_five_minutely_refresh \<lparr>ordinal = 738000, hour = 23, minute = 58, second = 20, microsecond = 5\<rparr>
       = \<lparr>ordinal = 738001, hour = 0, minute = 0, second = 0, microsecond = 0\<rparr>
   \<and> instant \<lparr>ordinal = 738000, hour = 23, minute = 58, second = 20, microsecond = 5\<rparr>
       < instant \<lparr>ordinal = 738001, hour = 0, minute = 0, second = 0, microsecond = 0\<rparr>
   \<and> valid \<lparr>ordinal = 738001, hour = 0, minute = 5, second = 0, microsecond = 0\<rparr>
   \<and> instant \<lparr>ordinal = 738001, hour = 0, minute = 0, second = 0, microsecond = 0\<rparr>
       \<le> instant \<lparr>ordinal = 738001, hour = 0, minute = 5, second = 0, microsecond = 0\<rparr>"
proof -
  have v: "valid \<lparr>ordinal = 738000, hour = 23, minute = 58, second = 20, microsecond = 5\<rparr>"
    by (simp add: valid_def)
  have e: "schedule_five_minutely_refresh \<lparr>ordinal = 738000, hour = 23, minute = 58, second = 20, microsecond = 5\<rparr>
       = \<lparr>ordinal = 738001, hour = 0, minute = 0, second = 0, microsecond = 0\<rparr>"
    by (simp add: schedule_five_minutely_refresh_def add_minutes_def Let_def)
  have w: "valid \<lparr>ordinal = 738001, hour = 0, minute = 5, second = 0, microsecond = 0\<rparr>"
    by (simp add: valid_def)
  have g: "instant \<lparr>ordinal = 738000, hour = 23, minute = 58, second = 20, microsecond = 5\<rparr>
           < instant \<lparr>ordinal = 738001, hour = 0, minute = 5, second = 0, microsecond = 0\<rparr>"
    by (simp add: instant_def)
  note t = next_refresh_boundary [OF v, unfolded e]
  from t have "instant \<lparr>ordinal = 738000, hour = 23, minute = 58, second = 20, microsecond = 5\<rparr>
       < instant \<lparr>ordinal = 738001, hour = 0, minute = 0, second = 0, microsecond = 0\<rparr>"
    by (rule conjunct2 [THEN conjunct1])
  moreover
  have "valid \<lparr>ordinal = 738001, hour = 0, minute = 5, second = 0, microsecond = 0\<rparr>
        \<and> instant \<lparr>ordinal = 738000, hour = 23, minute = 58, second = 20, microsecond = 5\<rparr>
           < instant \<lparr>ordinal = 738001, hour = 0, minute = 5, second = 0, microsecond = 0\<rparr>
        \<and> minute \<lparr>ordinal = 738001, hour = 0, minute = 5, second = 0, microsecond = 0\<rparr> mod 5 = 0
        \<and> second \<lparr>ordinal = 738001, hour = 0, minute = 5, second = 0, microsecond = 0\<rparr> = 0
        \<and> microsecond \<lparr>ordinal = 738001, hour = 0, minute = 5, second = 0, microsecond = 0\<rparr> = 0"
    using w g by simp
  then have "instant \<lparr>ordinal = 738001, hour = 0, minute = 0, second = 0, microsecond = 0\<rparr>
       \<le> instant \<lparr>ordinal = 738001, hour = 0, minute = 5, second = 0, microsecond = 0\<rparr>"
    by (rule t [THEN conjunct2, THEN conjunct2, THEN conjunct2, THEN conjunct2, THEN conjunct2,
                rule_format])
  ultimately show ?thesis using v e w by (simp only: simp_thms)
qed


end
